theory Spec2Isabelle
  imports Main "HOL-Library.Sublist"
begin

section \<open>JavaScript values\<close>

text \<open>
  The sources are JavaScript. A value is one of the shapes the modelled functions
  distinguish with the type tests of the \<^verbatim>\<open>is\<close> and \<^verbatim>\<open>lodash\<close> packages. An object
  is the list of its own enumerable properties in insertion order (the order in which
  \<^verbatim>\<open>transform\<close> and \<^verbatim>\<open>pickBy\<close> visit them); every modelled object is a plain object
  whose prototype is \<^verbatim>\<open>Object.prototype\<close>. Numbers are carried around unchanged and
  never computed with, so an integer stands for them. \<open>Fn k\<close> is the function value
  number \<open>k\<close> (a callback supplied by the caller), \<open>Native n\<close> the built-in that a
  property read finds under the name \<open>n\<close> on \<^verbatim>\<open>Object.prototype\<close>.
\<close>

datatype js_error =
    Error string
  | ClientNotConfiguredToSendErrors
  | UnableToRetrieveProjectId string
  | BadAPIInteraction string string

datatype jsval =
    Undefined
  | Null
  | Bool bool
  | Num int
  | Str string
  | Arr "jsval list"
  | Obj "(string \<times> jsval) list"
  | Fn nat
  | ErrObj js_error
  | Native string

type_synonym properties = "(string \<times> jsval) list"

text \<open>\<^verbatim>\<open>is.string\<close>, \<^verbatim>\<open>is.number\<close>, \<^verbatim>\<open>is.object\<close>, \<^verbatim>\<open>is.fn\<close>: tests on the
  \<^verbatim>\<open>Object.prototype.toString\<close> tag of the value. An array, an \<^verbatim>\<open>Error\<close>, a function
  and \<^verbatim>\<open>null\<close> are not objects for \<^verbatim>\<open>is.object\<close>.\<close>

fun isString :: "jsval \<Rightarrow> bool" where
  "isString (Str s) = True"
| "isString v = False"

fun isNumber :: "jsval \<Rightarrow> bool" where
  "isNumber (Num n) = True"
| "isNumber v = False"

fun isObject :: "jsval \<Rightarrow> bool" where
  "isObject (Obj ps) = True"
| "isObject (Native n) = (n = ''__proto__'')"
| "isObject v = False"

fun isFunction :: "jsval \<Rightarrow> bool" where
  "isFunction (Fn k) = True"
| "isFunction (Native n) = (n \<noteq> ''__proto__'')"
| "isFunction v = False"

text \<open>\<^verbatim>\<open>lodash.isempty\<close>: \<^verbatim>\<open>null\<close> and \<^verbatim>\<open>undefined\<close> are empty, a string or an array
  is empty when its length is 0, anything else when it has no own enumerable property.
  The error classes of \<^verbatim>\<open>errors.js\<close> assign \<^verbatim>\<open>this.message\<close>, an own enumerable
  property; the \<^verbatim>\<open>message\<close> of a built-in \<^verbatim>\<open>Error\<close> is not enumerable.\<close>

fun isEmpty :: "jsval \<Rightarrow> bool" where
  "isEmpty (Str s) = (s = [])"
| "isEmpty (Arr xs) = (xs = [])"
| "isEmpty (Obj ps) = (ps = [])"
| "isEmpty (ErrObj (Error m)) = True"
| "isEmpty (ErrObj e) = False"
| "isEmpty v = True"

text \<open>The names a property read on a plain object finds on \<^verbatim>\<open>Object.prototype\<close>
  when the object has no own property of that name.\<close>

definition Object_prototype_names :: "string list" where
  "Object_prototype_names =
     [''constructor'', ''hasOwnProperty'', ''isPrototypeOf'', ''propertyIsEnumerable'',
      ''toLocaleString'', ''toString'', ''valueOf'', ''__proto__'',
      ''__defineGetter__'', ''__defineSetter__'', ''__lookupGetter__'', ''__lookupSetter__'']"

text \<open>The property read \<^verbatim>\<open>object[key]\<close> on a plain object: the own property, else the
  inherited one, else \<^verbatim>\<open>undefined\<close>. Every read in the modelled sources is guarded by
  \<^verbatim>\<open>is.object\<close> or \<^verbatim>\<open>isPlainObject\<close>, so the last equation is never reached.\<close>

fun get :: "jsval \<Rightarrow> string \<Rightarrow> jsval" where
  "get (Obj ps) k =
     (case map_of ps k of
        Some v \<Rightarrow> v
      | None \<Rightarrow> if k \<in> set Object_prototype_names then Native k else Undefined)"
| "get v k = Undefined"

text \<open>The assignment \<^verbatim>\<open>acc[key] = v\<close> on an object: an existing property keeps its
  place, a new one is added last.\<close>

fun set_prop :: "properties \<Rightarrow> string \<Rightarrow> jsval \<Rightarrow> properties" where
  "set_prop [] k v = [(k, v)]"
| "set_prop ((k', v') # ps) k v =
     (if k' = k then (k, v) # ps else (k', v') # set_prop ps k v)"

fun join :: "string \<Rightarrow> string list \<Rightarrow> string" where
  "join sep [] = []"
| "join sep [x] = x"
| "join sep (x # y # xs) = x @ sep @ join sep (y # xs)"

subsection \<open>Library functions used by the sources\<close>

text \<open>\<^verbatim>\<open>lodash.pickby\<close>: the properties for which the predicate, given value and
  key, holds. \<^verbatim>\<open>lodash.transform\<close>: a left fold of the iteratee over the properties,
  starting from the given accumulator.\<close>

definition pickBy :: "properties \<Rightarrow> (jsval \<Rightarrow> string \<Rightarrow> bool) \<Rightarrow> properties" where
  "pickBy object predicate = filter (\<lambda>(key, v). predicate v key) object"

definition transform ::
  "properties \<Rightarrow> (properties \<Rightarrow> jsval \<Rightarrow> string \<Rightarrow> properties) \<Rightarrow> properties \<Rightarrow> properties" where
  "transform object iteratee accumulator =
     foldl (\<lambda>acc (key, v). iteratee acc v key) accumulator object"

text \<open>The \<^verbatim>\<open>extend\<close> package (a port of \<^verbatim>\<open>jQuery.extend\<close>), in its shallow form
  \<^verbatim>\<open>extend(target, options)\<close>: every property of \<^verbatim>\<open>options\<close> is assigned to
  \<^verbatim>\<open>target\<close>, except those whose value is \<^verbatim>\<open>undefined\<close>, which are skipped
  (\<^verbatim>\<open>else if (typeof copy !== 'undefined') { target[name] = copy; }\<close>).\<close>

definition extend_object :: "properties \<Rightarrow> properties \<Rightarrow> properties" where
  "extend_object target options =
     foldl (\<lambda>t (name, copy). if copy \<noteq> Undefined then set_prop t name copy else t)
       target options"

text \<open>\<^verbatim>\<open>lodash.has(object, path)\<close> reads its second argument as a property path. A
  string of word characters only (\<^verbatim>\<open>/^\w*$/\<close>) is a single key. Any other string goes
  through the library's path parser (\<^verbatim>\<open>isKey\<close> and \<^verbatim>\<open>stringToPath\<close>), which is not part
  of the repository and is a parameter \<open>castPath\<close> here. The keys are then followed one
  after the other, each having to be an own property (\<^verbatim>\<open>hasOwnProperty\<close>) of the value
  reached so far. A string value has the own properties \<^verbatim>\<open>length\<close> and its indices.
  (The library's last test, for an index of a sparse array or of an \<^verbatim>\<open>arguments\<close>
  object, concerns values that do not occur here. The own properties of function values
  are not modelled: no call of \<^verbatim>\<open>has\<close> in the sources reaches one.)\<close>

definition digit :: "nat \<Rightarrow> char" where
  "digit d = ''0123456789'' ! d"

fun dec :: "nat \<Rightarrow> string" where
  "dec n = (if n < 10 then [digit n] else dec (n div 10) @ [digit (n mod 10)])"

declare dec.simps [simp del]

definition index_of :: "string \<Rightarrow> nat \<Rightarrow> nat option" where
  "index_of k n = find (\<lambda>i. dec i = k) [0..<n]"

fun has_own :: "jsval \<Rightarrow> string \<Rightarrow> bool" where
  "has_own (Obj ps) k = (k \<in> fst ` set ps)"
| "has_own (Str s) k = (k = ''length'' \<or> index_of k (length s) \<noteq> None)"
| "has_own (Arr xs) k = (k = ''length'' \<or> index_of k (length xs) \<noteq> None)"
| "has_own v k = False"

fun get_own :: "jsval \<Rightarrow> string \<Rightarrow> jsval" where
  "get_own (Obj ps) k = (case map_of ps k of Some v \<Rightarrow> v | None \<Rightarrow> Undefined)"
| "get_own (Str s) k =
     (if k = ''length'' then Num (int (length s))
      else case index_of k (length s) of Some i \<Rightarrow> Str [s ! i] | None \<Rightarrow> Undefined)"
| "get_own (Arr xs) k =
     (if k = ''length'' then Num (int (length xs))
      else case index_of k (length xs) of Some i \<Rightarrow> xs ! i | None \<Rightarrow> Undefined)"
| "get_own v k = Undefined"

fun hasPath :: "jsval \<Rightarrow> string list \<Rightarrow> bool" where
  "hasPath object [] = False"
| "hasPath object [key] = has_own object key"
| "hasPath object (key # key' # keys) =
     (has_own object key \<and> hasPath (get_own object key) (key' # keys))"

definition isWordChar :: "char \<Rightarrow> bool" where
  "isWordChar c =
     (let n = (of_char c :: nat)
      in (48 \<le> n \<and> n \<le> 57) \<or> (65 \<le> n \<and> n \<le> 90) \<or> (97 \<le> n \<and> n \<le> 122) \<or> n = 95)"

definition isPlainProp :: "string \<Rightarrow> bool" where
  "isPlainProp path = list_all isWordChar path"

type_synonym path_parser = "string \<Rightarrow> jsval \<Rightarrow> string list"

definition has :: "path_parser \<Rightarrow> jsval \<Rightarrow> string \<Rightarrow> bool" where
  "has castPath object path =
     (object \<noteq> Null \<and> object \<noteq> Undefined \<and>
      hasPath object (if isPlainProp path then [path] else castPath path object))"

text \<open>The path parser on strings without brackets: the string itself when the object
  has a property of that name, else the string split at its dots. It stands for the
  library's parser where a closed evaluation needs one.\<close>

fun splitDots :: "string \<Rightarrow> string \<Rightarrow> string list" where
  "splitDots cur [] = [rev cur]"
| "splitDots cur (c # cs) =
     (if c = CHR ''.'' then rev cur # splitDots [] cs else splitDots (c # cur) cs)"

definition dottedPath :: path_parser where
  "dottedPath path object =
     (if get object path \<noteq> Undefined \<or> has_own object path then [path]
      else splitDots [] path)"

section \<open>The query builder: \<^verbatim>\<open>src/classes/list-error-options.js\<close>\<close>

record ListErrorOptions =
  groupId :: jsval
  serviceFilter :: jsval
  timeRange :: jsval
  pageSize :: jsval
  pageToken :: jsval

definition new_ListErrorOptions :: ListErrorOptions where
  "new_ListErrorOptions =
     \<lparr>groupId = Null, serviceFilter = Null, timeRange = Null,
      pageSize = Num 10, pageToken = Null\<rparr>"

text \<open>The own enumerable properties of a builder instance, in the order in which the
  constructor assigns them. (\<^verbatim>\<open>pickBy\<close> also visits the methods inherited from the
  prototype; none of them is a key of \<open>exportFilter\<close>, so the predicate drops them.)\<close>

definition own_properties :: "ListErrorOptions \<Rightarrow> properties" where
  "own_properties opts =
     [(''groupId'', groupId opts), (''serviceFilter'', serviceFilter opts),
      (''timeRange'', timeRange opts), (''pageSize'', pageSize opts),
      (''pageToken'', pageToken opts)]"

definition validateQueryObjectsForExport :: "jsval \<Rightarrow> bool" where
  "validateQueryObjectsForExport v = (isObject v \<and> \<not> isEmpty v)"

definition prefixQueryObjectForExport :: "string \<Rightarrow> properties \<Rightarrow> properties" where
  "prefixQueryObjectForExport pfx trgObject =
     transform trgObject (\<lambda>acc v key. set_prop acc (join ''.'' [pfx, key]) v) []"

definition exportFilter :: "(string \<times> (jsval \<Rightarrow> bool)) list" where
  "exportFilter =
     [(''groupId'', isString),
      (''serviceFilter'', validateQueryObjectsForExport),
      (''timeRange'', validateQueryObjectsForExport),
      (''pageSize'', isNumber),
      (''pageToken'', isString)]"

text \<open>The transformers receive a value that has passed \<open>validateQueryObjectsForExport\<close>,
  hence an object.\<close>

definition properties_of :: "jsval \<Rightarrow> properties" where
  "properties_of v = (case v of Obj ps \<Rightarrow> ps | _ \<Rightarrow> [])"

definition exportTransformer :: "(string \<times> (jsval \<Rightarrow> properties)) list" where
  "exportTransformer =
     [(''serviceFilter'',
         \<lambda>serviceFilterObject.
           prefixQueryObjectForExport ''serviceFilter'' (properties_of serviceFilterObject)),
      (''timeRange'',
         \<lambda>timeRangeObject.
           prefixQueryObjectForExport ''timeRange'' (properties_of timeRangeObject))]"

definition timePeriods :: properties where
  "timePeriods =
     [(''PERIOD_ONE_HOUR'', Str ''PERIOD_ONE_HOUR''),
      (''PERIOD_SIX_HOURS'', Str ''PERIOD_SIX_HOURS''),
      (''PERIOD_ONE_DAY'', Str ''PERIOD_ONE_DAY''),
      (''PERIOD_ONE_WEEK'', Str ''PERIOD_ONE_WEEK''),
      (''PERIOD_30_DAYS'', Str ''PERIOD_30_DAYS'')]"

definition setGroupId :: "jsval \<Rightarrow> ListErrorOptions \<Rightarrow> ListErrorOptions" where
  "setGroupId g opts = opts\<lparr>groupId := g\<rparr>"

definition setServiceFilter ::
  "jsval \<Rightarrow> jsval \<Rightarrow> jsval \<Rightarrow> ListErrorOptions \<Rightarrow> ListErrorOptions" where
  "setServiceFilter service version resourceType opts =
     opts\<lparr>serviceFilter :=
       Obj (pickBy [(''service'', service), (''version'', version),
                    (''resourceType'', resourceType)]
              (\<lambda>v key. isString v))\<rparr>"

text \<open>\<open>setTimeRange\<close> reads \<^verbatim>\<open>ListErrorOptions.timePeriods()[timeRange]\<close>; the argument is
  a string here (the conversion of other values to a property key is not modelled).\<close>

definition setTimeRange :: "string \<Rightarrow> ListErrorOptions \<Rightarrow> ListErrorOptions" where
  "setTimeRange tr opts = opts\<lparr>timeRange := Obj [(''period'', get (Obj timePeriods) tr)]\<rparr>"

definition setPageSize :: "jsval \<Rightarrow> ListErrorOptions \<Rightarrow> ListErrorOptions" where
  "setPageSize n opts = opts\<lparr>pageSize := n\<rparr>"

definition setPageToken :: "jsval \<Rightarrow> ListErrorOptions \<Rightarrow> ListErrorOptions" where
  "setPageToken tok opts = opts\<lparr>pageToken := tok\<rparr>"

definition exportAsRequestOptions :: "ListErrorOptions \<Rightarrow> properties" where
  "exportAsRequestOptions opts =
     transform
       (pickBy (own_properties opts)
          (\<lambda>v key. case map_of exportFilter key of Some p \<Rightarrow> p v | None \<Rightarrow> False))
       (\<lambda>acc v key.
          case map_of exportTransformer key of
            Some t \<Rightarrow> extend_object acc (t v)
          | None \<Rightarrow> set_prop acc key v)
       []"

section \<open>The validating factory and the query interface: \<^verbatim>\<open>src/interfaces/listErrors.js\<close>\<close>

text \<open>The argument of \<open>populateRequestOptions\<close> is either an instance of the builder
  class (\<^verbatim>\<open>userOptions instanceof ListErrorOptions\<close>) or any other value. The function
  returns an \<^verbatim>\<open>Error\<close> or a builder; it has no statement that throws.\<close>

datatype user_options = Plain jsval | Instance ListErrorOptions

text \<open>The eight errors it can return, in the order of the checks.\<close>

definition groupId_error :: js_error where
  "groupId_error =
     Error (''Must provide a groupId in either the form of a string or an object ''
            @ ''with a groupId property that is a string.'')"

definition serviceFilter_error :: js_error where
  "serviceFilter_error =
     Error ''Optional argument property serviceFilter must be of type object if supplied''"

definition service_error :: js_error where
  "service_error =
     Error ''Optional argument serviceFilter.service must be of type string if supplied''"

definition version_error :: js_error where
  "version_error =
     Error ''Optional argument serviceFilter.version must be of type string if supplied''"

definition resourceType_error :: js_error where
  "resourceType_error =
     Error ''Optional argument serviceFilter.resourceType must of type string if supplied''"

definition timeRange_error :: js_error where
  "timeRange_error =
     Error (''Optional argument serviceFilter.timeRange must one of the following ''
            @ ''if supplied: '' @ [CHR 0x0A] @ join '', '' (map fst timePeriods))"

definition pageSize_error :: js_error where
  "pageSize_error = Error ''Optional argument pageSize must of type number if supplied''"

definition pageToken_error :: js_error where
  "pageToken_error = Error ''Optional argument pageToken must be of type string if supplied''"

definition extractServiceFilter ::
  "path_parser \<Rightarrow> jsval \<Rightarrow> ListErrorOptions \<Rightarrow> js_error + ListErrorOptions" where
  "extractServiceFilter castPath userOptions opts =
     (if \<not> has castPath userOptions ''serviceFilter'' then Inr opts
      else if \<not> isObject (get userOptions ''serviceFilter'') then Inl serviceFilter_error
      else if has castPath (get userOptions ''serviceFilter'') ''service''
            \<and> \<not> isString (get (get userOptions ''serviceFilter'') ''service'') then
        Inl service_error
      else if has castPath (get userOptions ''serviceFilter'') ''version''
            \<and> \<not> isString (get (get userOptions ''serviceFilter'') ''version'') then
        Inl version_error
      else if has castPath (get userOptions ''serviceFilter'') ''resourceType''
            \<and> \<not> isString (get (get userOptions ''serviceFilter'') ''resourceType'') then
        Inl resourceType_error
      else
        Inr (setServiceFilter
               (get (get userOptions ''serviceFilter'') ''service'')
               (get (get userOptions ''serviceFilter'') ''version'')
               (get (get userOptions ''serviceFilter'') ''resourceType'') opts))"

definition extractTimeRange ::
  "path_parser \<Rightarrow> jsval \<Rightarrow> ListErrorOptions \<Rightarrow> js_error + ListErrorOptions" where
  "extractTimeRange castPath userOptions opts =
     (if \<not> has castPath userOptions ''timeRange'' then Inr opts
      else
        (case get userOptions ''timeRange'' of
           Str tr \<Rightarrow>
             if \<not> has castPath (Obj timePeriods) tr then Inl timeRange_error
             else Inr (setTimeRange tr opts)
         | _ \<Rightarrow> Inl timeRange_error))"

definition extractPageSize ::
  "path_parser \<Rightarrow> jsval \<Rightarrow> ListErrorOptions \<Rightarrow> js_error + ListErrorOptions" where
  "extractPageSize castPath userOptions opts =
     (if \<not> has castPath userOptions ''pageSize'' then Inr opts
      else if \<not> isNumber (get userOptions ''pageSize'') then Inl pageSize_error
      else Inr (setPageSize (get userOptions ''pageSize'') opts))"

definition extractPageToken ::
  "path_parser \<Rightarrow> jsval \<Rightarrow> ListErrorOptions \<Rightarrow> js_error + ListErrorOptions" where
  "extractPageToken castPath userOptions opts =
     (if \<not> has castPath userOptions ''pageToken'' then Inr opts
      else if \<not> isString (get userOptions ''pageToken'') then Inl pageToken_error
      else Inr (setPageToken (get userOptions ''pageToken'') opts))"

text \<open>The four optional fields are extracted one after the other; the first error
  ends the function.\<close>

definition populateRequestOptions ::
  "path_parser \<Rightarrow> user_options \<Rightarrow> js_error + ListErrorOptions" where
  "populateRequestOptions castPath userOptions =
     (case userOptions of
        Instance builder \<Rightarrow> Inr builder
      | Plain u \<Rightarrow>
          if isString u then Inr (setGroupId u new_ListErrorOptions)
          else if \<not> isObject u \<or> \<not> isString (get u ''groupId'') then Inl groupId_error
          else
            (case extractServiceFilter castPath u
                    (setGroupId (get u ''groupId'') new_ListErrorOptions) of
               Inl e \<Rightarrow> Inl e
             | Inr opts1 \<Rightarrow>
                 (case extractTimeRange castPath u opts1 of
                    Inl e \<Rightarrow> Inl e
                  | Inr opts2 \<Rightarrow>
                      (case extractPageSize castPath u opts2 of
                         Inl e \<Rightarrow> Inl e
                       | Inr opts3 \<Rightarrow> extractPageToken castPath u opts3))))"

text \<open>The function \<^verbatim>\<open>listErrors\<close> made by \<^verbatim>\<open>handlerSetup(client, config)\<close>. Its
  result is the value it returns together with the calls it makes, in order: of the
  caller's callback and of \<^verbatim>\<open>client.listErrors\<close>. \<open>lacksCredentials\<close> is the answer of
  \<^verbatim>\<open>config.lacksCredentials()\<close>.\<close>

datatype interface_call =
    CallCallback jsval jsval jsval
  | CallClientListErrors ListErrorOptions jsval

definition handlerSetup_listErrors ::
  "path_parser \<Rightarrow> bool \<Rightarrow> user_options \<Rightarrow> jsval
     \<Rightarrow> (js_error + ListErrorOptions) \<times> interface_call list" where
  "handlerSetup_listErrors castPath lacksCredentials userOptions callback =
     (if lacksCredentials then
        (Inl (Error ''Valid credentials have not been supplied''), [])
      else
        (case populateRequestOptions castPath userOptions of
           Inl requestOptions \<Rightarrow>
             (Inl requestOptions,
              if isFunction callback
              then [CallCallback callback (ErrObj requestOptions) Null] else [])
         | Inr requestOptions \<Rightarrow>
             (Inr requestOptions, [CallClientListErrors requestOptions callback])))"

section \<open>The request handler: \<^verbatim>\<open>src/google-apis/errors.js\<close>\<close>

text \<open>The messages of the error classes of \<^verbatim>\<open>errors.js\<close>; the message of a built-in
  \<^verbatim>\<open>Error\<close> is the string it was made with.\<close>

definition message :: "js_error \<Rightarrow> string" where
  "message e =
     (case e of
        Error m \<Rightarrow> m
      | ClientNotConfiguredToSendErrors \<Rightarrow>
          join '' ''
            [''Stackdriver error reporting client has not been configured to send'',
             ''errors, please check the NODE_ENV environment variable and make sure it'',
             ''is set to '' @ [CHR 0x22] @ ''production'' @ [CHR 0x22]
               @ '' or set the ignoreEnvironmentCheck property to '',
             ''true in the runtime configuration object'']
      | UnableToRetrieveProjectId errMsg \<Rightarrow>
          join '' ''
            [''Unable to retrieve a project id from the Google Metadata Service or'',
             ''the local environment. Client will not be able to communicate with'',
             ''the Stackdriver Error Reporting API without a valid project id'',
             ''Please make sure to supply a project id either through the'',
             ''GCLOUD_PROJECT environmental variable or through the configuration'',
             ''object given to this library on startup if not running on Google'',
             ''Cloud Platform.'' @ [CHR 0x0A] @ '' Returned error message: '' @ [CHR 0x0A],
             errMsg]
      | BadAPIInteraction intendedAction errMsg \<Rightarrow>
          join '' ''
            [''Encountered an error while attempting to'',
             intendedAction,
             [CHR 0x0A] @ ''Original Error Message:'' @ [CHR 0x0A],
             errMsg])"

text \<open>What the handler asks of its configuration object (the class with the
  asynchronous \<^verbatim>\<open>getProjectId(callback)\<close>, which is not among the sources): whether
  errors are to be reported, what \<^verbatim>\<open>getProjectId\<close> passes to its callback (an error or
  the project id) and the API key.\<close>

record handler_config =
  getShouldReportErrorsToAPI :: bool
  getProjectId :: "js_error + string"
  getKey :: jsval

text \<open>The request object given to the transport; \<open>http_method\<close> is its \<^verbatim>\<open>method\<close>
  property.\<close>

record request =
  uri :: string
  http_method :: string
  json :: "jsval option"

text \<open>What a call of the handler does, in order: lines written to the logger, requests
  handed to the transport \<^verbatim>\<open>_request\<close>, and calls of the user's callback with
  \<^verbatim>\<open>(err, response, body)\<close>. The transport is a parameter: the \<^verbatim>\<open>(err, response, body)\<close>
  it passes to its callback, once, for a request. So is \<^verbatim>\<open>querystring.stringify\<close>.\<close>

datatype handler_effect =
    LoggerError string
  | LoggerErrorObject js_error
  | Request request
  | Callback jsval jsval jsval jsval

type_synonym transport = "request \<Rightarrow> js_error option \<times> jsval \<times> jsval"

fun truthy :: "jsval \<Rightarrow> bool" where
  "truthy Undefined = False"
| "truthy Null = False"
| "truthy (Bool b) = b"
| "truthy (Num n) = (n \<noteq> 0)"
| "truthy (Str s) = (s \<noteq> [])"
| "truthy v = True"

definition API :: string where
  "API = ''https://clouderrorreporting.googleapis.com/v1beta1/projects''"

definition API_ENDPOINTS :: "(string \<times> string) list" where
  "API_ENDPOINTS =
     [(''report'', ''events:report''), (''deleteAllEvents'', ''events''),
      (''listEvents'', ''events'')]"

definition endpoint :: "string \<Rightarrow> string" where
  "endpoint name = (case map_of API_ENDPOINTS name of Some e \<Rightarrow> e | None \<Rightarrow> [])"

text \<open>\<^verbatim>\<open>[API, projectId, endpoint].join('/')\<close>: \<^verbatim>\<open>join\<close> writes a \<^verbatim>\<open>null\<close> element as
  the empty string.\<close>

definition manufactureAPIHref ::
  "(properties \<Rightarrow> string) \<Rightarrow> string option \<Rightarrow> string \<Rightarrow> properties \<Rightarrow> string" where
  "manufactureAPIHref stringify projectId endpt query =
     join ''/'' [API, (case projectId of None \<Rightarrow> [] | Some p \<Rightarrow> p), endpt]
     @ (if isEmpty (Obj query) then [] else ''?'' @ stringify query)"

text \<open>\<open>validatedCb\<close> is the user's callback when it is a function, else \<^verbatim>\<open>noOp\<close>
  (\<open>None\<close>), whose call does nothing.\<close>

definition validated :: "jsval \<Rightarrow> jsval option" where
  "validated userCb = (if isFunction userCb then Some userCb else None)"

definition invoke :: "jsval option \<Rightarrow> jsval \<Rightarrow> jsval \<Rightarrow> jsval \<Rightarrow> handler_effect list" where
  "invoke cb err response body =
     (case cb of None \<Rightarrow> [] | Some f \<Rightarrow> [Callback f err response body])"

definition error_value :: "js_error option \<Rightarrow> jsval" where
  "error_value err = (case err of None \<Rightarrow> Null | Some e \<Rightarrow> ErrObj e)"

definition requestPreflight ::
  "handler_config \<Rightarrow> jsval
     \<Rightarrow> (jsval option \<Rightarrow> js_error option \<Rightarrow> string option \<Rightarrow> handler_effect list)
     \<Rightarrow> handler_effect list" where
  "requestPreflight config userCb readyCb =
     (let validatedCb = validated userCb
      in if \<not> getShouldReportErrorsToAPI config then
           LoggerError (message ClientNotConfiguredToSendErrors)
             # readyCb validatedCb (Some ClientNotConfiguredToSendErrors) None
         else
           (case getProjectId config of
              Inl err \<Rightarrow>
                LoggerError (message (UnableToRetrieveProjectId (message err)))
                  # readyCb validatedCb (Some (UnableToRetrieveProjectId (message err))) None
            | Inr ident \<Rightarrow> readyCb validatedCb None (Some ident)))"

definition getAPIKeyOptions :: "handler_config \<Rightarrow> properties" where
  "getAPIKeyOptions config =
     (if truthy (getKey config) then [(''key'', getKey config)] else [])"

text \<open>The callback each operation gives to the transport: a transport error is logged,
  wrapped with the name of the operation, and the three arguments go to the user's
  callback unchanged.\<close>

definition transported ::
  "transport \<Rightarrow> request \<Rightarrow> string \<Rightarrow> jsval option \<Rightarrow> handler_effect list" where
  "transported send_request req intendedAction cb =
     Request req #
       (case send_request req of
          (err, response, body) \<Rightarrow>
            (case err of
               Some e \<Rightarrow> [LoggerErrorObject (BadAPIInteraction intendedAction (message e))]
             | None \<Rightarrow> [])
            @ invoke cb (error_value err) response body)"

definition sendError ::
  "(properties \<Rightarrow> string) \<Rightarrow> transport \<Rightarrow> handler_config \<Rightarrow> jsval \<Rightarrow> jsval
     \<Rightarrow> handler_effect list" where
  "sendError stringify send_request config errorMessage userCb =
     requestPreflight config userCb
       (\<lambda>cb err ident.
          case err of
            Some e \<Rightarrow> invoke cb (ErrObj e) Null Null
          | None \<Rightarrow>
              transported send_request
                \<lparr>uri = manufactureAPIHref stringify ident (endpoint ''report'')
                         (getAPIKeyOptions config),
                 http_method = ''POST'', json = Some errorMessage\<rparr>
                ''write an error to the API'' cb)"

definition deleteAllErrors ::
  "(properties \<Rightarrow> string) \<Rightarrow> transport \<Rightarrow> handler_config \<Rightarrow> jsval
     \<Rightarrow> handler_effect list" where
  "deleteAllErrors stringify send_request config userCb =
     requestPreflight config userCb
       (\<lambda>cb err ident.
          case err of
            Some e \<Rightarrow> invoke cb (ErrObj e) Null Null
          | None \<Rightarrow>
              transported send_request
                \<lparr>uri = manufactureAPIHref stringify ident (endpoint ''deleteAllEvents'')
                         (getAPIKeyOptions config),
                 http_method = ''DELETE'', json = None\<rparr>
                (''delete all errors from project: ''
                 @ (case ident of None \<Rightarrow> ''null'' | Some p \<Rightarrow> p)) cb)"

text \<open>\<^verbatim>\<open>RequestHandler.prototype.listErrors\<close>: its continuation does not look at
  \<^verbatim>\<open>err\<close>.\<close>

definition RequestHandler_listErrors ::
  "(properties \<Rightarrow> string) \<Rightarrow> transport \<Rightarrow> handler_config \<Rightarrow> ListErrorOptions \<Rightarrow> jsval
     \<Rightarrow> handler_effect list" where
  "RequestHandler_listErrors stringify send_request config listErrorOptions userCb =
     requestPreflight config userCb
       (\<lambda>cb err ident.
          transported send_request
            \<lparr>uri = manufactureAPIHref stringify ident (endpoint ''listEvents'')
                     (extend_object (getAPIKeyOptions config)
                        (exportAsRequestOptions listErrorOptions)),
             http_method = ''GET'', json = None\<rparr>
            (''list errors from project ''
             @ (case ident of None \<Rightarrow> ''null'' | Some p \<Rightarrow> p)) cb)"

section \<open>The configuration: \<^verbatim>\<open>lib/configuration_new.js\<close>\<close>

text \<open>
  The class extends Node's \<^verbatim>\<open>EventEmitter\<close>. The instance is a record of its fields,
  of the listeners registered on it, and of the trace of what it has done so far:
  lines written with \<^verbatim>\<open>console.error\<close>, calls of \<^verbatim>\<open>emit\<close> and calls of listeners. A
  listener is an opaque function value: its call is recorded, it returns normally and
  does not call back into the instance. A method returns the exception it threw, if
  any, and the instance as it left it.

  As committed, the file is not a program: the condition at line 333
  (\<^verbatim>\<open>if (isPlainObject(this._givenConfiguration) {\<close>) lacks a closing parenthesis, and
  line 437 (\<^verbatim>\<open>Configuration.prototype._checkLocalServiceContext() = function() {\<close>)
  assigns to a call. The parser refuses the module with a \<^verbatim>\<open>SyntaxError\<close>, so no
  instance is ever made from it. The functions whose own text parses are embedded below
  as they read. The two that do not, \<^verbatim>\<open>_gatherLocalConfiguration\<close> and
  \<^verbatim>\<open>_checkLocalServiceContext\<close>, have no behaviour of their own: the metadata
  callbacks take what the call \<^verbatim>\<open>this._gatherLocalConfiguration()\<close> does as a parameter,
  and the reading of the two functions with the syntax put right is kept apart, under
  names that say so.
\<close>

record env =
  GCLOUD_PROJECT :: "string option"
  GAE_MODULE_NAME :: "string option"
  GAE_MODULE_VERSION :: "string option"
  NODE_ENV :: "string option"

definition env_value :: "string option \<Rightarrow> jsval" where
  "env_value x = (case x of None \<Rightarrow> Undefined | Some s \<Rightarrow> Str s)"

datatype payload = This | Failure js_error

datatype config_effect =
    ConsoleError string jsval jsval
  | Emit string payload
  | Invoke jsval payload

datatype exn = ReferenceError string | TypeError string | Uncaught payload

record service_context =
  service :: string
  version :: string

record Configuration =
  initState :: bool
  initError :: "js_error option"
  reportUncaughtExceptions :: bool
  shouldReportErrorsToAPI :: bool
  projectId :: jsval
  projectNumber :: jsval
  key :: jsval
  serviceContext :: service_context
  packageVersion :: string
  givenConfiguration :: jsval
  listeners :: "(string \<times> jsval) list"
  trace :: "config_effect list"

fun isPlainObject :: "jsval \<Rightarrow> bool" where
  "isPlainObject (Obj ps) = True"
| "isPlainObject v = False"

fun isBoolean :: "jsval \<Rightarrow> bool" where
  "isBoolean (Bool b) = True"
| "isBoolean v = False"

definition isNull :: "jsval \<Rightarrow> bool" where
  "isNull v = (v = Null)"

definition isUndefined :: "jsval \<Rightarrow> bool" where
  "isUndefined v = (v = Undefined)"

text \<open>The constructor. The metadata request it starts
  (\<^verbatim>\<open>utils.getProjectNumber(this._assimilateProjectNumber.bind(this))\<close>) answers later,
  by calling \<open>assimilateProjectNumber\<close>.\<close>

definition new_Configuration :: "env \<Rightarrow> string \<Rightarrow> jsval \<Rightarrow> Configuration" where
  "new_Configuration e pkgVersion givenConfig =
     \<lparr>initState = False,
      initError = None,
      reportUncaughtExceptions = True,
      shouldReportErrorsToAPI = (NODE_ENV e = Some ''production''),
      projectId = Null,
      projectNumber = Null,
      key = Null,
      serviceContext = \<lparr>service = [], version = []\<rparr>,
      packageVersion = pkgVersion,
      givenConfiguration = (if isPlainObject givenConfig then givenConfig else Null),
      listeners = [],
      trace = []\<rparr>"

subsection \<open>The event emitter\<close>

text \<open>\<^verbatim>\<open>once(event, listener)\<close> adds the listener after those already registered.
  \<^verbatim>\<open>emit(event, arg)\<close> removes the listeners of the event (all of them are \<^verbatim>\<open>once\<close>
  listeners) and calls them in the order of registration; an \<^verbatim>\<open>error\<close> event that
  finds no listener is thrown.\<close>

definition once :: "string \<Rightarrow> jsval \<Rightarrow> Configuration \<Rightarrow> Configuration" where
  "once event listener c = c\<lparr>listeners := listeners c @ [(event, listener)]\<rparr>"

definition emit :: "string \<Rightarrow> payload \<Rightarrow> Configuration \<Rightarrow> exn option \<times> Configuration" where
  "emit event arg c =
     (let called = filter (\<lambda>(ev, l). ev = event) (listeners c)
      in if event = ''error'' \<and> called = [] then
           (Some (Uncaught arg), c\<lparr>trace := trace c @ [Emit event arg]\<rparr>)
         else
           (None,
            c\<lparr>listeners := filter (\<lambda>(ev, l). ev \<noteq> event) (listeners c),
              trace := trace c @ [Emit event arg] @ map (\<lambda>(ev, l). Invoke l arg) called\<rparr>))"

subsection \<open>Local sources of the project id and number\<close>

text \<open>The global \<^verbatim>\<open>isNaN\<close> (which converts a string to a number first) is a
  parameter.\<close>

definition checkLocalProjectId :: "(jsval \<Rightarrow> bool) \<Rightarrow> env \<Rightarrow> Configuration \<Rightarrow> Configuration" where
  "checkLocalProjectId isNaN e c =
     (if isString (projectId c) then c
      else if isString (env_value (GCLOUD_PROJECT e))
            \<and> \<not> isEmpty (env_value (GCLOUD_PROJECT e))
            \<and> isNaN (env_value (GCLOUD_PROJECT e)) then
        c\<lparr>projectId := env_value (GCLOUD_PROJECT e)\<rparr>
      else if isPlainObject (givenConfiguration c)
            \<and> \<not> isEmpty (get (givenConfiguration c) ''projectId'')
            \<and> isString (get (givenConfiguration c) ''projectId'')
            \<and> isNaN (get (givenConfiguration c) ''projectId'') then
        c\<lparr>projectId := get (givenConfiguration c) ''projectId''\<rparr>
      else c)"

definition checkLocalProjectNumber :: "(jsval \<Rightarrow> bool) \<Rightarrow> env \<Rightarrow> Configuration \<Rightarrow> Configuration" where
  "checkLocalProjectNumber isNaN e c =
     (if isNumber (projectNumber c) then c
      else if isString (env_value (GCLOUD_PROJECT e))
            \<and> \<not> isEmpty (env_value (GCLOUD_PROJECT e))
            \<and> \<not> isNaN (env_value (GCLOUD_PROJECT e)) then
        c\<lparr>projectNumber := env_value (GCLOUD_PROJECT e)\<rparr>
      else if isPlainObject (givenConfiguration c)
            \<and> \<not> isEmpty (get (givenConfiguration c) ''projectId'')
            \<and> isString (get (givenConfiguration c) ''projectId'')
            \<and> \<not> isNaN (get (givenConfiguration c) ''projectId'') then
        c\<lparr>projectNumber := get (givenConfiguration c) ''projectId''\<rparr>
      else c)"

subsection \<open>Settlement\<close>

definition checkConfigurationIntegrity :: "Configuration \<Rightarrow> exn option \<times> Configuration" where
  "checkConfigurationIntegrity c =
     (if initState c = False then
        (let c1 = c\<lparr>initState := True\<rparr>
         in if isNull (projectId c1) \<and> isNull (projectNumber c1) then
              emit ''error'' (Failure (Error ''Unable to gather project id or number''))
                (c1\<lparr>initError := Some (Error ''Unable to gather project id or number'')\<rparr>)
            else emit ''ready'' This c1)
      else (None, c))"

text \<open>The two metadata callbacks. \<open>gather\<close> is what the call
  \<^verbatim>\<open>this._gatherLocalConfiguration()\<close> does in the environment of that moment.\<close>

type_synonym gathering = "env \<Rightarrow> Configuration \<Rightarrow> exn option \<times> Configuration"

definition assimilateProjectId ::
  "gathering \<Rightarrow> env \<Rightarrow> jsval \<Rightarrow> jsval \<Rightarrow> Configuration \<Rightarrow> exn option \<times> Configuration" where
  "assimilateProjectId gather e err ident c =
     (case gather e
             (if isNull err \<and> isString ident then c\<lparr>projectId := ident\<rparr>
              else c\<lparr>trace := trace c
                       @ [ConsoleError ''Unable to retrieve project id'' ident err]\<rparr>) of
        (Some x, c1) \<Rightarrow> (Some x, c1)
      | (None, c1) \<Rightarrow> checkConfigurationIntegrity c1)"

definition assimilateProjectNumber ::
  "gathering \<Rightarrow> env \<Rightarrow> jsval \<Rightarrow> jsval \<Rightarrow> Configuration \<Rightarrow> exn option \<times> Configuration" where
  "assimilateProjectNumber gather e err projectNum c =
     (case gather e
             (if isUndefined err \<and> isNumber projectNum then c\<lparr>projectNumber := projectNum\<rparr>
              else c\<lparr>trace := trace c
                       @ [ConsoleError ''Unable to retrieve project number'' projectNum err]\<rparr>) of
        (Some x, c1) \<Rightarrow> (Some x, c1)
      | (None, c1) \<Rightarrow> checkConfigurationIntegrity c1)"

subsection \<open>Listeners\<close>

text \<open>The call \<^verbatim>\<open>callback(arg)\<close> of the second branch is not guarded by
  \<^verbatim>\<open>isFunction\<close>: calling a value that is not a function throws a \<^verbatim>\<open>TypeError\<close>.\<close>

definition call_listener :: "jsval \<Rightarrow> payload \<Rightarrow> Configuration \<Rightarrow> exn option \<times> Configuration" where
  "call_listener callback arg c =
     (if isFunction callback then (None, c\<lparr>trace := trace c @ [Invoke callback arg]\<rparr>)
      else (Some (TypeError ''callback is not a function''), c))"

definition addReadyListener :: "jsval \<Rightarrow> Configuration \<Rightarrow> exn option \<times> Configuration" where
  "addReadyListener callback c =
     (if initState c = False \<and> isFunction callback then (None, once ''ready'' callback c)
      else if initState c = True \<and> initError c = None then call_listener callback This c
      else (None, c))"

definition addErrorListener :: "jsval \<Rightarrow> Configuration \<Rightarrow> exn option \<times> Configuration" where
  "addErrorListener callback c =
     (if initState c = False \<and> isFunction callback then (None, once ''error'' callback c)
      else if initState c = True \<and> initError c \<noteq> None then
        (case initError c of
           Some e \<Rightarrow> call_listener callback (Failure e) c
         | None \<Rightarrow> (None, c))
      else (None, c))"

subsection \<open>Lifetimes\<close>

text \<open>What can happen to an instance after its construction: listeners are added and
  the metadata callback (either of the two) runs, any number of times and in any order,
  each time with the environment and the answer of that moment. An exception ends the
  call that threw it; the instance stays as that call left it.\<close>

datatype operation =
    AddReadyListener jsval
  | AddErrorListener jsval
  | AssimilateProjectNumber env jsval jsval
  | AssimilateProjectId env jsval jsval

fun step :: "gathering \<Rightarrow> operation \<Rightarrow> Configuration \<Rightarrow> exn option \<times> Configuration" where
  "step gather (AddReadyListener callback) c = addReadyListener callback c"
| "step gather (AddErrorListener callback) c = addErrorListener callback c"
| "step gather (AssimilateProjectNumber e err projectNum) c =
     assimilateProjectNumber gather e err projectNum c"
| "step gather (AssimilateProjectId e err ident) c = assimilateProjectId gather e err ident c"

fun run :: "gathering \<Rightarrow> operation list \<Rightarrow> Configuration \<Rightarrow> Configuration" where
  "run gather [] c = c"
| "run gather (x # xs) c = run gather xs (snd (step gather x c))"

text \<open>The payloads of the \<^verbatim>\<open>emit\<close> calls of an event, and of the calls of a
  listener, in a trace.\<close>

fun emitted :: "string \<Rightarrow> config_effect list \<Rightarrow> payload list" where
  "emitted event [] = []"
| "emitted event (Emit ev arg # t) =
     (if ev = event then arg # emitted event t else emitted event t)"
| "emitted event (x # t) = emitted event t"

fun invoked :: "config_effect list \<Rightarrow> (jsval \<times> payload) list" where
  "invoked [] = []"
| "invoked (Invoke l arg # t) = (l, arg) # invoked t"
| "invoked (x # t) = invoked t"

subsection \<open>Local gathering, with the syntax put right\<close>

text \<open>Not the committed text, which does not parse, but what it reads as once line 437
  is taken for \<^verbatim>\<open>Configuration.prototype._checkLocalServiceContext = function() {\<close> and
  line 333 for \<^verbatim>\<open>if (isPlainObject(this._givenConfiguration)) {\<close>. Nothing else is
  changed: the bodies are as written.

  \<open>checkLocalServiceContext_repaired\<close> first sets both fields from the environment. With
  a service context in the given configuration it then assigns to
  \<^verbatim>\<open>this_serviceContext.service\<close> (line 445), an identifier that is not declared (a
  \<^verbatim>\<open>ReferenceError\<close>), and to \<^verbatim>\<open>this.serviceContext.version\<close> (line 449), a property
  of \<^verbatim>\<open>undefined\<close> (a \<^verbatim>\<open>TypeError\<close>).\<close>

definition checkLocalServiceContext_repaired ::
  "env \<Rightarrow> Configuration \<Rightarrow> exn option \<times> Configuration" where
  "checkLocalServiceContext_repaired e c =
     (let gaeModuleName = env_value (GAE_MODULE_NAME e);
          gaeModuleVer = env_value (GAE_MODULE_VERSION e);
          c1 = c\<lparr>serviceContext :=
                  \<lparr>service = (case gaeModuleName of Str s \<Rightarrow> s | _ \<Rightarrow> []),
                   version = (case gaeModuleVer of Str s \<Rightarrow> s | _ \<Rightarrow> [])\<rparr>\<rparr>
      in if isPlainObject (givenConfiguration c1)
            \<and> isPlainObject (get (givenConfiguration c1) ''serviceContext'') then
           (if isString (get (get (givenConfiguration c1) ''serviceContext'') ''service'') then
              (Some (ReferenceError ''this_serviceContext is not defined''), c1)
            else if isString (get (get (givenConfiguration c1) ''serviceContext'') ''version'') then
              (Some (TypeError ''Cannot set property version of undefined''), c1)
            else (None, c1))
         else (None, c1))"

definition gatherLocalConfiguration_repaired :: "(jsval \<Rightarrow> bool) \<Rightarrow> gathering" where
  "gatherLocalConfiguration_repaired isNaN e c =
     (case checkLocalServiceContext_repaired e
             (checkLocalProjectNumber isNaN e (checkLocalProjectId isNaN e c)) of
        (Some x, c1) \<Rightarrow> (Some x, c1)
      | (None, c1) \<Rightarrow>
          (if isPlainObject (givenConfiguration c1) then
             (let c2 = (case get (givenConfiguration c1) ''reportUncaughtExceptions'' of
                          Bool b \<Rightarrow> c1\<lparr>reportUncaughtExceptions := b\<rparr>
                        | _ \<Rightarrow> c1)
              in (None,
                  if isString (get (givenConfiguration c2) ''key'')
                  then c2\<lparr>key := get (givenConfiguration c2) ''key''\<rparr> else c2))
           else (None, c1)))"

section \<open>Notions used in the statements\<close>

text \<open>Whether \<open>checkLocalServiceContext_repaired\<close> reaches one of its two failing
  assignments: this depends on the given configuration only.\<close>

definition throws_on_service_context :: "jsval \<Rightarrow> bool" where
  "throws_on_service_context given =
     (isPlainObject given \<and> isPlainObject (get given ''serviceContext'') \<and>
      (isString (get (get given ''serviceContext'') ''service'')
       \<or> isString (get (get given ''serviceContext'') ''version'')))"

text \<open>What holds of an instance at every moment of its life, provided that gathering
  leaves the life cycle alone. Before the integrity check has run, no event has been
  emitted and there is no error. Afterwards exactly one \<^verbatim>\<open>emit\<close> has happened, of
  \<^verbatim>\<open>ready\<close> when \<open>initError\<close> is \<^verbatim>\<open>null\<close> and of \<^verbatim>\<open>error\<close> with \<open>initError\<close>
  otherwise.\<close>

definition lifecycle_invariant :: "Configuration \<Rightarrow> bool" where
  "lifecycle_invariant c =
     (if initState c then
        (case initError c of
           None \<Rightarrow> emitted ''ready'' (trace c) = [This] \<and> emitted ''error'' (trace c) = []
         | Some e \<Rightarrow> emitted ''ready'' (trace c) = [] \<and> emitted ''error'' (trace c) = [Failure e])
      else initError c = None \<and> emitted ''ready'' (trace c) = []
           \<and> emitted ''error'' (trace c) = [])"

text \<open>The validation rules of the factory as the specification lists them, one per
  field and in the order of the fields: whether the rule is violated, and the error that
  reports it. Membership of a time range in the enumeration is the test the code makes.
  \<open>spec_field_errors\<close> collects the errors of all violated rules.\<close>

definition time_range_string :: "jsval \<Rightarrow> string" where
  "time_range_string v = (case v of Str s \<Rightarrow> s | _ \<Rightarrow> [])"

definition spec_field_checks :: "path_parser \<Rightarrow> jsval \<Rightarrow> (bool \<times> js_error) list" where
  "spec_field_checks castPath u =
     [(\<not> isObject u \<or> \<not> isString (get u ''groupId''), groupId_error),
      (has castPath u ''serviceFilter'' \<and> \<not> isObject (get u ''serviceFilter''),
         serviceFilter_error),
      (has castPath u ''serviceFilter''
         \<and> has castPath (get u ''serviceFilter'') ''service''
         \<and> \<not> isString (get (get u ''serviceFilter'') ''service''), service_error),
      (has castPath u ''serviceFilter''
         \<and> has castPath (get u ''serviceFilter'') ''version''
         \<and> \<not> isString (get (get u ''serviceFilter'') ''version''), version_error),
      (has castPath u ''serviceFilter''
         \<and> has castPath (get u ''serviceFilter'') ''resourceType''
         \<and> \<not> isString (get (get u ''serviceFilter'') ''resourceType''), resourceType_error),
      (has castPath u ''timeRange''
         \<and> (\<not> isString (get u ''timeRange'')
              \<or> \<not> has castPath (Obj timePeriods) (time_range_string (get u ''timeRange''))),
         timeRange_error),
      (has castPath u ''pageSize'' \<and> \<not> isNumber (get u ''pageSize''), pageSize_error),
      (has castPath u ''pageToken'' \<and> \<not> isString (get u ''pageToken''), pageToken_error)]"

definition spec_field_errors :: "path_parser \<Rightarrow> jsval \<Rightarrow> js_error list" where
  "spec_field_errors castPath u = map snd (filter fst (spec_field_checks castPath u))"

text \<open>An environment with none of the variables set, for the concrete runs below.\<close>

definition env0 :: env where
  "env0 = \<lparr>GCLOUD_PROJECT = None, GAE_MODULE_NAME = None, GAE_MODULE_VERSION = None,
           NODE_ENV = None\<rparr>"

section \<open>The query builder and the validating factory: proofs\<close>

lemma set_prop_keys: "fst ` set (set_prop ps k v) = insert k (fst ` set ps)"
  by (induction ps k v rule: set_prop.induct) auto

lemma extend_object_keys: "fst ` set (extend_object t os) \<subseteq> fst ` set t \<union> fst ` set os"
  unfolding extend_object_def
proof (induction os arbitrary: t)
  case Nil
  then show ?case by simp
next
  case (Cons p os)
  obtain k v where p: "p = (k, v)" by (cases p)
  show ?case
    using Cons.IH [of "if v \<noteq> Undefined then set_prop t k v else t"]
    by (auto simp add: p set_prop_keys split: if_splits)
qed

lemma prefix_keys_gen:
  "fst ` set (foldl (\<lambda>acc (key, v). set_prop acc (join ''.'' [pfx, key]) v) acc ps)
     = fst ` set acc \<union> (\<lambda>k. pfx @ ''.'' @ k) ` fst ` set ps"
proof (induction ps arbitrary: acc)
  case Nil
  then show ?case by simp
next
  case (Cons p ps)
  obtain k v where p: "p = (k, v)" by (cases p)
  show ?case
    using Cons.IH [of "set_prop acc (pfx @ ''.'' @ k) v"]
    by (auto simp add: p set_prop_keys)
qed

lemma prefixQueryObjectForExport_keys:
  "fst ` set (prefixQueryObjectForExport pfx ps) = (\<lambda>k. pfx @ ''.'' @ k) ` fst ` set ps"
  using prefix_keys_gen [of pfx "[]" ps]
  by (simp add: prefixQueryObjectForExport_def transform_def)

lemma foldl_filter:
  "foldl f a (filter P xs) = foldl (\<lambda>a x. if P x then f a x else a) a xs"
  by (induction xs arbitrary: a) simp_all

text \<open>The export, field after field.\<close>

lemma exportAsRequestOptions_unfold:
  "exportAsRequestOptions opts =
     (let a1 = (if isString (groupId opts) then set_prop [] ''groupId'' (groupId opts) else []);
          a2 = (if validateQueryObjectsForExport (serviceFilter opts)
                then extend_object a1
                       (prefixQueryObjectForExport ''serviceFilter'' (properties_of (serviceFilter opts)))
                else a1);
          a3 = (if validateQueryObjectsForExport (timeRange opts)
                then extend_object a2
                       (prefixQueryObjectForExport ''timeRange'' (properties_of (timeRange opts)))
                else a2);
          a4 = (if isNumber (pageSize opts) then set_prop a3 ''pageSize'' (pageSize opts) else a3)
      in if isString (pageToken opts) then set_prop a4 ''pageToken'' (pageToken opts) else a4)"
  by (simp add: exportAsRequestOptions_def own_properties_def pickBy_def transform_def
      foldl_filter exportFilter_def exportTransformer_def Let_def)

lemma exportAsRequestOptions_keys:
  "fst ` set (exportAsRequestOptions opts) \<subseteq>
     (if isString (groupId opts) then {''groupId''} else {})
     \<union> (if validateQueryObjectsForExport (serviceFilter opts)
        then (\<lambda>k. ''serviceFilter.'' @ k) ` fst ` set (properties_of (serviceFilter opts)) else {})
     \<union> (if validateQueryObjectsForExport (timeRange opts)
        then (\<lambda>k. ''timeRange.'' @ k) ` fst ` set (properties_of (timeRange opts)) else {})
     \<union> (if isNumber (pageSize opts) then {''pageSize''} else {})
     \<union> (if isString (pageToken opts) then {''pageToken''} else {})"
proof -
  define a1 where "a1 = (if isString (groupId opts) then set_prop [] ''groupId'' (groupId opts) else [])"
  define a2 where "a2 = (if validateQueryObjectsForExport (serviceFilter opts)
                then extend_object a1
                       (prefixQueryObjectForExport ''serviceFilter'' (properties_of (serviceFilter opts)))
                else a1)"
  define a3 where "a3 = (if validateQueryObjectsForExport (timeRange opts)
                then extend_object a2
                       (prefixQueryObjectForExport ''timeRange'' (properties_of (timeRange opts)))
                else a2)"
  define a4 where "a4 = (if isNumber (pageSize opts) then set_prop a3 ''pageSize'' (pageSize opts) else a3)"
  define S1 where "S1 = (if isString (groupId opts) then {''groupId''} else {})"
  define S2 where "S2 = (if validateQueryObjectsForExport (serviceFilter opts)
        then (\<lambda>k. ''serviceFilter.'' @ k) ` fst ` set (properties_of (serviceFilter opts)) else {})"
  define S3 where "S3 = (if validateQueryObjectsForExport (timeRange opts)
        then (\<lambda>k. ''timeRange.'' @ k) ` fst ` set (properties_of (timeRange opts)) else {})"
  define S4 where "S4 = (if isNumber (pageSize opts) then {''pageSize''} else {})"
  define S5 where "S5 = (if isString (pageToken opts) then {''pageToken''} else {})"
  have k1: "fst ` set a1 \<subseteq> S1"
    by (simp add: a1_def S1_def)
  have k2: "fst ` set a2 \<subseteq> fst ` set a1 \<union> S2"
  proof (cases "validateQueryObjectsForExport (serviceFilter opts)")
    case True
    then show ?thesis
      using extend_object_keys [of a1 "prefixQueryObjectForExport ''serviceFilter'' (properties_of (serviceFilter opts))"]
      by (simp add: a2_def S2_def prefixQueryObjectForExport_keys)
  next
    case False
    then show ?thesis by (simp add: a2_def S2_def)
  qed
  have k3: "fst ` set a3 \<subseteq> fst ` set a2 \<union> S3"
  proof (cases "validateQueryObjectsForExport (timeRange opts)")
    case True
    then show ?thesis
      using extend_object_keys [of a2 "prefixQueryObjectForExport ''timeRange'' (properties_of (timeRange opts))"]
      by (simp add: a3_def S3_def prefixQueryObjectForExport_keys)
  next
    case False
    then show ?thesis by (simp add: a3_def S3_def)
  qed
  have k4: "fst ` set a4 \<subseteq> fst ` set a3 \<union> S4"
    by (cases "isNumber (pageSize opts)") (simp_all add: a4_def S4_def set_prop_keys subset_insertI2)
  have e: "exportAsRequestOptions opts =
      (if isString (pageToken opts) then set_prop a4 ''pageToken'' (pageToken opts) else a4)"
    unfolding exportAsRequestOptions_unfold Let_def a1_def a2_def a3_def a4_def ..
  have k5: "fst ` set (exportAsRequestOptions opts) \<subseteq> fst ` set a4 \<union> S5"
    by (cases "isString (pageToken opts)") (simp_all add: e S5_def set_prop_keys subset_insertI2)
  have "fst ` set (exportAsRequestOptions opts) \<subseteq> S1 \<union> S2 \<union> S3 \<union> S4 \<union> S5"
  proof -
    have s2: "fst ` set a2 \<subseteq> S1 \<union> S2"
      by (rule order_trans [OF k2]) (use k1 in \<open>simp add: le_supI1\<close>)
    have s3: "fst ` set a3 \<subseteq> S1 \<union> S2 \<union> S3"
      by (rule order_trans [OF k3]) (use s2 in \<open>simp add: le_supI1\<close>)
    have s4: "fst ` set a4 \<subseteq> S1 \<union> S2 \<union> S3 \<union> S4"
      by (rule order_trans [OF k4]) (use s3 in \<open>simp add: le_supI1\<close>)
    show ?thesis
      by (rule order_trans [OF k5]) (use s4 in \<open>simp add: le_supI1\<close>)
  qed
  then show ?thesis
    unfolding S1_def S2_def S3_def S4_def S5_def .
qed

lemma export_key_cases:
  assumes "k \<in> fst ` set (exportAsRequestOptions opts)"
  shows "k = ''groupId''
     \<or> (validateQueryObjectsForExport (serviceFilter opts) \<and> (\<exists>k'. k = ''serviceFilter.'' @ k'))
     \<or> (validateQueryObjectsForExport (timeRange opts) \<and> (\<exists>k'. k = ''timeRange.'' @ k'))
     \<or> k = ''pageSize'' \<or> k = ''pageToken''"
proof -
  from assms exportAsRequestOptions_keys [of opts]
  have "k \<in> (if isString (groupId opts) then {''groupId''} else {})
     \<or> k \<in> (if validateQueryObjectsForExport (serviceFilter opts)
        then (\<lambda>k. ''serviceFilter.'' @ k) ` fst ` set (properties_of (serviceFilter opts)) else {})
     \<or> k \<in> (if validateQueryObjectsForExport (timeRange opts)
        then (\<lambda>k. ''timeRange.'' @ k) ` fst ` set (properties_of (timeRange opts)) else {})
     \<or> k \<in> (if isNumber (pageSize opts) then {''pageSize''} else {})
     \<or> k \<in> (if isString (pageToken opts) then {''pageToken''} else {})"
    by (simp only: subset_iff Un_iff) metis
  then consider
      (g) "k \<in> (if isString (groupId opts) then {''groupId''} else {})"
    | (s) "k \<in> (if validateQueryObjectsForExport (serviceFilter opts)
        then (\<lambda>k. ''serviceFilter.'' @ k) ` fst ` set (properties_of (serviceFilter opts)) else {})"
    | (t) "k \<in> (if validateQueryObjectsForExport (timeRange opts)
        then (\<lambda>k. ''timeRange.'' @ k) ` fst ` set (properties_of (timeRange opts)) else {})"
    | (n) "k \<in> (if isNumber (pageSize opts) then {''pageSize''} else {})"
    | (p) "k \<in> (if isString (pageToken opts) then {''pageToken''} else {})"
    by metis
  then show ?thesis
  proof cases
    case g
    then have "k = ''groupId''" by (simp split: if_splits)
    then show ?thesis by simp
  next
    case s
    then have "validateQueryObjectsForExport (serviceFilter opts) \<and> (\<exists>k'. k = ''serviceFilter.'' @ k')"
      by (auto split: if_splits)
    then show ?thesis by simp
  next
    case t
    then have "validateQueryObjectsForExport (timeRange opts) \<and> (\<exists>k'. k = ''timeRange.'' @ k')"
      by (auto split: if_splits)
    then show ?thesis by simp
  next
    case n
    then have "k = ''pageSize''" by (simp split: if_splits)
    then show ?thesis by simp
  next
    case p
    then have "k = ''pageToken''" by (simp split: if_splits)
    then show ?thesis by simp
  qed
qed

lemma not_validated_no_keys:
  assumes "k \<in> fst ` set (exportAsRequestOptions opts)"
  shows "\<not> validateQueryObjectsForExport (serviceFilter opts) \<Longrightarrow> \<not> prefix ''serviceFilter'' k"
    and "\<not> validateQueryObjectsForExport (timeRange opts) \<Longrightarrow> \<not> prefix ''timeRange'' k"
proof -
  show "\<not> prefix ''serviceFilter'' k" if "\<not> validateQueryObjectsForExport (serviceFilter opts)"
    using export_key_cases [OF assms] that by (elim disjE conjE exE) simp_all
  show "\<not> prefix ''timeRange'' k" if "\<not> validateQueryObjectsForExport (timeRange opts)"
    using export_key_cases [OF assms] that by (elim disjE conjE exE) simp_all
qed

text \<open>
  Claim C7. A \<open>serviceFilter\<close> (a \<open>timeRange\<close>) that is the empty record is left out of
  the export: no exported key starts with \<^verbatim>\<open>serviceFilter\<close> (with \<^verbatim>\<open>timeRange\<close>).
  \<open>setServiceFilter\<close> with three arguments none of which is a string stores the empty
  record; so \<^verbatim>\<open>setServiceFilter(null, {}, 123)\<close> on a fresh builder exports no
  \<^verbatim>\<open>serviceFilter\<close> key.
\<close>

theorem export_omits_empty_records:
  "(serviceFilter opts = Obj [] \<longrightarrow>
      (\<forall>k \<in> fst ` set (exportAsRequestOptions opts). \<not> prefix ''serviceFilter'' k))
   \<and> (timeRange opts = Obj [] \<longrightarrow>
      (\<forall>k \<in> fst ` set (exportAsRequestOptions opts). \<not> prefix ''timeRange'' k))
   \<and> (\<not> isString a \<and> \<not> isString b \<and> \<not> isString c \<longrightarrow>
        serviceFilter (setServiceFilter a b c opts) = Obj [])
   \<and> (\<forall>k \<in> fst ` set (exportAsRequestOptions
                          (setServiceFilter Null (Obj []) (Num 123) new_ListErrorOptions)).
        \<not> prefix ''serviceFilter'' k)"
proof (intro conjI impI ballI)
  fix k assume "serviceFilter opts = Obj []" "k \<in> fst ` set (exportAsRequestOptions opts)"
  then show "\<not> prefix ''serviceFilter'' k"
    using not_validated_no_keys(1) [of k opts] by (simp add: validateQueryObjectsForExport_def)
next
  fix k assume "timeRange opts = Obj []" "k \<in> fst ` set (exportAsRequestOptions opts)"
  then show "\<not> prefix ''timeRange'' k"
    using not_validated_no_keys(2) [of k opts] by (simp add: validateQueryObjectsForExport_def)
next
  assume "\<not> isString a \<and> \<not> isString b \<and> \<not> isString c"
  then show "serviceFilter (setServiceFilter a b c opts) = Obj []"
    by (simp add: setServiceFilter_def pickBy_def)
next
  fix k
  assume "k \<in> fst ` set (exportAsRequestOptions
                          (setServiceFilter Null (Obj []) (Num 123) new_ListErrorOptions))"
  then show "\<not> prefix ''serviceFilter'' k"
    using not_validated_no_keys(1) [of k "setServiceFilter Null (Obj []) (Num 123) new_ListErrorOptions"]
    by (simp add: validateQueryObjectsForExport_def setServiceFilter_def pickBy_def)
qed

theorem export_omits_empty_records_witness:
  "serviceFilter (setServiceFilter Null (Obj []) (Num 123) new_ListErrorOptions) = Obj []
   \<and> timeRange (new_ListErrorOptions\<lparr>timeRange := Obj []\<rparr>) = Obj []
   \<and> ''pageSize'' \<in> fst ` set (exportAsRequestOptions
                          (setServiceFilter Null (Obj []) (Num 123) new_ListErrorOptions))
   \<and> \<not> prefix ''serviceFilter'' ''pageSize''
   \<and> \<not> prefix ''timeRange'' ''pageSize''"
  using export_omits_empty_records [of "setServiceFilter Null (Obj []) (Num 123) new_ListErrorOptions"
      Null "Obj []" "Num 123"]
  by (simp add: exportAsRequestOptions_unfold setServiceFilter_def pickBy_def
      new_ListErrorOptions_def validateQueryObjectsForExport_def)

lemmas builder_defs =
  exportAsRequestOptions_unfold setTimeRange_def setGroupId_def setServiceFilter_def
  setPageSize_def setPageToken_def new_ListErrorOptions_def validateQueryObjectsForExport_def
  prefixQueryObjectForExport_def transform_def extend_object_def properties_of_def pickBy_def
  timePeriods_def Object_prototype_names_def Let_def

lemmas has_defs = has_def isPlainProp_def isWordChar_def

lemmas populate_defs =
  populateRequestOptions_def extractServiceFilter_def extractTimeRange_def
  extractPageSize_def extractPageToken_def

text \<open>
  Claim C4 as stated, that the export is the one entry \<^verbatim>\<open>timeRange.period\<close> and nothing
  else, fails: the default page size is exported too.
\<close>

theorem one_hour_export_counterexample:
  "set (exportAsRequestOptions (setTimeRange ''PERIOD_ONE_HOUR'' new_ListErrorOptions))
     \<noteq> {(''timeRange.period'', Str ''PERIOD_ONE_HOUR'')}
   \<and> ''pageSize'' \<in> fst ` set (exportAsRequestOptions
                          (setTimeRange ''PERIOD_ONE_HOUR'' new_ListErrorOptions))"
  by (simp add: builder_defs)

text \<open>
  Claim C4, as amended. On a fresh builder, \<^verbatim>\<open>setTimeRange('PERIOD_ONE_HOUR')\<close> followed
  by the export yields the two entries \<^verbatim>\<open>timeRange.period\<close>, bound to
  \<^verbatim>\<open>PERIOD_ONE_HOUR\<close>, and \<^verbatim>\<open>pageSize\<close>, bound to the default 10 that the constructor
  sets; there is no other key.
\<close>

theorem one_hour_export:
  "exportAsRequestOptions (setTimeRange ''PERIOD_ONE_HOUR'' new_ListErrorOptions)
     = [(''timeRange.period'', Str ''PERIOD_ONE_HOUR''), (''pageSize'', Num 10)]"
  by (simp add: builder_defs)

text \<open>
  Claim C10 as stated fails. For \<^verbatim>\<open>PERIOD_ONE_MINUTE\<close> the builder stores
  \<^verbatim>\<open>{period: undefined}\<close>, which passes the export predicate, but the export has no
  \<^verbatim>\<open>timeRange.period\<close> key: \<^verbatim>\<open>extend\<close> skips a property whose value is \<^verbatim>\<open>undefined\<close>.
  For \<^verbatim>\<open>toString\<close>, which is not a time period either, the stored period is not
  \<^verbatim>\<open>undefined\<close> but the function inherited from \<^verbatim>\<open>Object.prototype\<close>.
\<close>

theorem unknown_period_counterexample:
  "timeRange (setTimeRange ''PERIOD_ONE_MINUTE'' new_ListErrorOptions)
     = Obj [(''period'', Undefined)]
   \<and> validateQueryObjectsForExport
       (timeRange (setTimeRange ''PERIOD_ONE_MINUTE'' new_ListErrorOptions))
   \<and> ''timeRange.period'' \<notin> fst ` set (exportAsRequestOptions
                          (setTimeRange ''PERIOD_ONE_MINUTE'' new_ListErrorOptions))
   \<and> exportAsRequestOptions (setTimeRange ''PERIOD_ONE_MINUTE'' new_ListErrorOptions)
       = [(''pageSize'', Num 10)]
   \<and> timeRange (setTimeRange ''toString'' new_ListErrorOptions)
       = Obj [(''period'', Native ''toString'')]"
  by (simp add: builder_defs)

lemma unknown_period_undefined:
  assumes "tr \<notin> fst ` set timePeriods" and "tr \<notin> set Object_prototype_names"
  shows "get (Obj timePeriods) tr = Undefined"
proof -
  have "map_of timePeriods tr = None" using assms(1) by (simp add: map_of_eq_None_iff)
  then show ?thesis using assms(2) by simp
qed

lemma export_undefined_period:
  "exportAsRequestOptions (opts\<lparr>timeRange := Obj [(''period'', Undefined)]\<rparr>)
     = exportAsRequestOptions (opts\<lparr>timeRange := Null\<rparr>)"
  by (simp add: exportAsRequestOptions_unfold validateQueryObjectsForExport_def
      prefixQueryObjectForExport_def transform_def extend_object_def properties_of_def Let_def)

text \<open>
  Claim C10, as amended. When \<open>setTimeRange\<close> is called with a string that is neither one
  of the five time-period keys nor the name of a property inherited from
  \<^verbatim>\<open>Object.prototype\<close>, the builder stores \<^verbatim>\<open>{period: undefined}\<close>; this record has an
  own key and passes the export predicate; the export nevertheless has no
  \<^verbatim>\<open>timeRange\<close> key at all.
\<close>

theorem unknown_period_is_not_exported:
  assumes "tr \<notin> fst ` set timePeriods" and "tr \<notin> set Object_prototype_names"
  shows "timeRange (setTimeRange tr opts) = Obj [(''period'', Undefined)]
       \<and> validateQueryObjectsForExport (timeRange (setTimeRange tr opts))
       \<and> (\<forall>k \<in> fst ` set (exportAsRequestOptions (setTimeRange tr opts)).
            \<not> prefix ''timeRange'' k)"
proof -
  have t: "setTimeRange tr opts = opts\<lparr>timeRange := Obj [(''period'', Undefined)]\<rparr>"
    unfolding setTimeRange_def unknown_period_undefined [OF assms] ..
  have "\<not> prefix ''timeRange'' k"
    if "k \<in> fst ` set (exportAsRequestOptions (setTimeRange tr opts))" for k
    using not_validated_no_keys(2) [of k "opts\<lparr>timeRange := Null\<rparr>"] that
    by (simp add: t export_undefined_period validateQueryObjectsForExport_def)
  then show ?thesis
    by (simp add: t validateQueryObjectsForExport_def)
qed

theorem unknown_period_is_not_exported_witness:
  "''PERIOD_ONE_MINUTE'' \<notin> fst ` set timePeriods
   \<and> ''PERIOD_ONE_MINUTE'' \<notin> set Object_prototype_names
   \<and> timeRange (setTimeRange ''PERIOD_ONE_MINUTE'' new_ListErrorOptions)
       = Obj [(''period'', Undefined)]
   \<and> ''pageSize'' \<in> fst ` set (exportAsRequestOptions
                          (setTimeRange ''PERIOD_ONE_MINUTE'' new_ListErrorOptions))
   \<and> \<not> prefix ''timeRange'' ''pageSize''"
  using unknown_period_is_not_exported [of "''PERIOD_ONE_MINUTE''" new_ListErrorOptions]
  by (simp add: builder_defs)

text \<open>
  Claim C9. For every string \<open>g\<close>, in particular \<^verbatim>\<open>'xyz'\<close>,
  \<^verbatim>\<open>populateRequestOptions(g)\<close> and \<^verbatim>\<open>populateRequestOptions({groupId: g})\<close> both succeed
  with the same builder: group id \<open>g\<close>, no service filter, no time range, the default
  page size, no page token. Its export is the group id and the page size.
\<close>

theorem bare_string_is_group_id:
  "populateRequestOptions castPath (Plain (Str g))
     = Inr \<lparr>groupId = Str g, serviceFilter = Null, timeRange = Null,
            pageSize = Num 10, pageToken = Null\<rparr>
   \<and> populateRequestOptions castPath (Plain (Obj [(''groupId'', Str g)]))
     = Inr \<lparr>groupId = Str g, serviceFilter = Null, timeRange = Null,
            pageSize = Num 10, pageToken = Null\<rparr>
   \<and> exportAsRequestOptions
        \<lparr>groupId = Str g, serviceFilter = Null, timeRange = Null,
         pageSize = Num 10, pageToken = Null\<rparr>
     = [(''groupId'', Str g), (''pageSize'', Num 10)]"
  by (simp add: populate_defs has_defs builder_defs)

theorem bare_string_is_group_id_witness:
  "populateRequestOptions dottedPath (Plain (Str ''xyz''))
     = populateRequestOptions dottedPath (Plain (Obj [(''groupId'', Str ''xyz'')]))
   \<and> (case populateRequestOptions dottedPath (Plain (Str ''xyz'')) of
        Inl e \<Rightarrow> False
      | Inr opts \<Rightarrow> exportAsRequestOptions opts = [(''groupId'', Str ''xyz''), (''pageSize'', Num 10)])"
  using bare_string_is_group_id [of dottedPath "''xyz''"]
  by simp

lemma extractServiceFilter_cases:
  "extractServiceFilter castPath u opts =
     (if has castPath u ''serviceFilter'' \<and> \<not> isObject (get u ''serviceFilter'') then
        Inl serviceFilter_error
      else if has castPath u ''serviceFilter''
           \<and> has castPath (get u ''serviceFilter'') ''service''
           \<and> \<not> isString (get (get u ''serviceFilter'') ''service'') then
        Inl service_error
      else if has castPath u ''serviceFilter''
           \<and> has castPath (get u ''serviceFilter'') ''version''
           \<and> \<not> isString (get (get u ''serviceFilter'') ''version'') then
        Inl version_error
      else if has castPath u ''serviceFilter''
           \<and> has castPath (get u ''serviceFilter'') ''resourceType''
           \<and> \<not> isString (get (get u ''serviceFilter'') ''resourceType'') then
        Inl resourceType_error
      else Inr (if has castPath u ''serviceFilter''
                then setServiceFilter
                       (get (get u ''serviceFilter'') ''service'')
                       (get (get u ''serviceFilter'') ''version'')
                       (get (get u ''serviceFilter'') ''resourceType'') opts
                else opts))"
  unfolding extractServiceFilter_def by (cases "has castPath u ''serviceFilter''") simp_all

lemma extractTimeRange_cases:
  "extractTimeRange castPath u opts =
     (if has castPath u ''timeRange''
           \<and> (\<not> isString (get u ''timeRange'')
                \<or> \<not> has castPath (Obj timePeriods) (time_range_string (get u ''timeRange''))) then
        Inl timeRange_error
      else Inr (if has castPath u ''timeRange''
                then setTimeRange (time_range_string (get u ''timeRange'')) opts else opts))"
  unfolding extractTimeRange_def time_range_string_def
  by (cases "get u ''timeRange''") simp_all

lemma extractPageSize_cases:
  "extractPageSize castPath u opts =
     (if has castPath u ''pageSize'' \<and> \<not> isNumber (get u ''pageSize'') then Inl pageSize_error
      else Inr (if has castPath u ''pageSize'' then setPageSize (get u ''pageSize'') opts else opts))"
  unfolding extractPageSize_def by simp

lemma extractPageToken_cases:
  "extractPageToken castPath u opts =
     (if has castPath u ''pageToken'' \<and> \<not> isString (get u ''pageToken'') then Inl pageToken_error
      else Inr (if has castPath u ''pageToken'' then setPageToken (get u ''pageToken'') opts else opts))"
  unfolding extractPageToken_def by simp

lemma first_of_chain:
  fixes r :: "js_error + ListErrorOptions"
  assumes "b1 \<Longrightarrow> r = Inl e1"
    and "\<not> b1 \<Longrightarrow> b2 \<Longrightarrow> r = Inl e2"
    and "\<not> b1 \<Longrightarrow> \<not> b2 \<Longrightarrow> b3 \<Longrightarrow> r = Inl e3"
    and "\<not> b1 \<Longrightarrow> \<not> b2 \<Longrightarrow> \<not> b3 \<Longrightarrow> b4 \<Longrightarrow> r = Inl e4"
    and "\<not> b1 \<Longrightarrow> \<not> b2 \<Longrightarrow> \<not> b3 \<Longrightarrow> \<not> b4 \<Longrightarrow> b5 \<Longrightarrow> r = Inl e5"
    and "\<not> b1 \<Longrightarrow> \<not> b2 \<Longrightarrow> \<not> b3 \<Longrightarrow> \<not> b4 \<Longrightarrow> \<not> b5 \<Longrightarrow> b6 \<Longrightarrow> r = Inl e6"
    and "\<not> b1 \<Longrightarrow> \<not> b2 \<Longrightarrow> \<not> b3 \<Longrightarrow> \<not> b4 \<Longrightarrow> \<not> b5 \<Longrightarrow> \<not> b6 \<Longrightarrow> b7 \<Longrightarrow> r = Inl e7"
    and "\<not> b1 \<Longrightarrow> \<not> b2 \<Longrightarrow> \<not> b3 \<Longrightarrow> \<not> b4 \<Longrightarrow> \<not> b5 \<Longrightarrow> \<not> b6 \<Longrightarrow> \<not> b7 \<Longrightarrow> b8 \<Longrightarrow> r = Inl e8"
    and "\<not> b1 \<Longrightarrow> \<not> b2 \<Longrightarrow> \<not> b3 \<Longrightarrow> \<not> b4 \<Longrightarrow> \<not> b5 \<Longrightarrow> \<not> b6 \<Longrightarrow> \<not> b7 \<Longrightarrow> \<not> b8
           \<Longrightarrow> \<exists>opts. r = Inr opts"
  shows "case map snd (filter fst
            [(b1, e1), (b2, e2), (b3, e3), (b4, e4), (b5, e5), (b6, e6), (b7, e7), (b8, e8)]) of
           [] \<Rightarrow> (\<exists>opts. r = Inr opts)
         | e # es \<Rightarrow> r = Inl e"
proof (cases b1)
  case True then show ?thesis using assms(1) by simp
next
  case n1: False show ?thesis
  proof (cases b2)
    case True then show ?thesis using assms(2) n1 by simp
  next
    case n2: False show ?thesis
    proof (cases b3)
      case True then show ?thesis using assms(3) n1 n2 by simp
    next
      case n3: False show ?thesis
      proof (cases b4)
        case True then show ?thesis using assms(4) n1 n2 n3 by simp
      next
        case n4: False show ?thesis
        proof (cases b5)
          case True then show ?thesis using assms(5) n1 n2 n3 n4 by simp
        next
          case n5: False show ?thesis
          proof (cases b6)
            case True then show ?thesis using assms(6) n1 n2 n3 n4 n5 by simp
          next
            case n6: False show ?thesis
            proof (cases b7)
              case True then show ?thesis using assms(7) n1 n2 n3 n4 n5 n6 by simp
            next
              case n7: False show ?thesis
              proof (cases b8)
                case True then show ?thesis using assms(8) n1 n2 n3 n4 n5 n6 n7 by simp
              next
                case False then show ?thesis using assms(9) n1 n2 n3 n4 n5 n6 n7 by simp
              qed
            qed
          qed
        qed
      qed
    qed
  qed
qed

text \<open>For an argument that is not a string, the factory returns the error of the first
  violated rule and no other; it returns a builder when no rule is violated.\<close>

lemma populate_stops_at_first_invalid_field:
  assumes "\<not> isString u"
  shows "case spec_field_errors castPath u of
           [] \<Rightarrow> (\<exists>opts. populateRequestOptions castPath (Plain u) = Inr opts)
         | e # es \<Rightarrow> populateRequestOptions castPath (Plain u) = Inl e"
  unfolding spec_field_errors_def spec_field_checks_def
  by (rule first_of_chain)
     (auto simp add: assms populateRequestOptions_def extractServiceFilter_cases
        extractTimeRange_cases extractPageSize_cases extractPageToken_cases
        simp del: has_own.simps get.simps isObject.simps isString.simps isNumber.simps)

text \<open>The example of the specification, \<^verbatim>\<open>{serviceFilter: {version: 123}}\<close>: the
  error returned is the one for the missing group id, which is checked first; with a
  group id it is the one for the version.\<close>

lemma version_example:
  "populateRequestOptions castPath (Plain (Obj [(''serviceFilter'', Obj [(''version'', Num 123)])]))
     = Inl groupId_error"
  "populateRequestOptions castPath
     (Plain (Obj [(''groupId'', Str ''xyz''), (''serviceFilter'', Obj [(''version'', Num 123)])]))
     = Inl version_error"
  by (simp_all add: populate_defs has_defs builder_defs)

text \<open>
  Claim C8 at the input \<^verbatim>\<open>{groupId: 'xyz', timeRange: 'PERIOD_ONE_HOUR.length'}\<close>. The
  string is not one of the time periods, yet \<^verbatim>\<open>has\<close> reads it as the path
  \<^verbatim>\<open>PERIOD_ONE_HOUR\<close>, \<^verbatim>\<open>length\<close>, which exists (a string has an own \<^verbatim>\<open>length\<close>): no
  error is returned, and the builder has the time range \<^verbatim>\<open>{period: undefined}\<close>.
\<close>

theorem path_like_time_range_is_accepted:
  assumes "castPath ''PERIOD_ONE_HOUR.length'' (Obj timePeriods) = [''PERIOD_ONE_HOUR'', ''length'']"
  shows "populateRequestOptions castPath
           (Plain (Obj [(''groupId'', Str ''xyz''), (''timeRange'', Str ''PERIOD_ONE_HOUR.length'')]))
         = Inr \<lparr>groupId = Str ''xyz'', serviceFilter = Null,
                timeRange = Obj [(''period'', Undefined)], pageSize = Num 10, pageToken = Null\<rparr>"
  using assms by (simp add: populate_defs has_defs builder_defs)

theorem path_like_time_range_is_accepted_witness:
  "dottedPath ''PERIOD_ONE_HOUR.length'' (Obj timePeriods) = [''PERIOD_ONE_HOUR'', ''length'']
   \<and> populateRequestOptions dottedPath
           (Plain (Obj [(''groupId'', Str ''xyz''), (''timeRange'', Str ''PERIOD_ONE_HOUR.length'')]))
         = Inr \<lparr>groupId = Str ''xyz'', serviceFilter = Null,
                timeRange = Obj [(''period'', Undefined)], pageSize = Num 10, pageToken = Null\<rparr>"
proof -
  have h: "dottedPath ''PERIOD_ONE_HOUR.length'' (Obj timePeriods) = [''PERIOD_ONE_HOUR'', ''length'']"
    by (simp add: dottedPath_def timePeriods_def Object_prototype_names_def)
  show ?thesis using h path_like_time_range_is_accepted [of dottedPath, OF h] by simp
qed

section \<open>The query interface and the request handler: proofs\<close>

text \<open>
  Claim C6 at any input with \<^verbatim>\<open>config.lacksCredentials()\<close> true: the error is returned,
  no request options are built and the client is not called, but the callback is not
  called either, function or not.
\<close>

theorem lacking_credentials_skips_callback:
  "handlerSetup_listErrors castPath True userOptions callback
     = (Inl (Error ''Valid credentials have not been supplied''), [])"
  by (simp add: handlerSetup_listErrors_def)

text \<open>
  Claim C3 for \<^verbatim>\<open>listErrors\<close>, when the preflight reports an error (reporting is
  disabled, or no project id could be retrieved): the preflight logs its error, and
  then the request is handed to the transport all the same, with no project id in its
  address; the user's callback receives what the transport answers, not the preflight
  error.
\<close>

theorem listErrors_requests_after_preflight_error:
  assumes "\<not> getShouldReportErrorsToAPI config \<or> isl (getProjectId config)"
  shows "(\<exists>logged. RequestHandler_listErrors stringify send_request config opts userCb
            = LoggerError logged
              # transported send_request
                  \<lparr>uri = manufactureAPIHref stringify None ''events''
                           (extend_object (getAPIKeyOptions config) (exportAsRequestOptions opts)),
                   http_method = ''GET'', json = None\<rparr>
                  ''list errors from project null'' (validated userCb))
   \<and> Request \<lparr>uri = manufactureAPIHref stringify None ''events''
                    (extend_object (getAPIKeyOptions config) (exportAsRequestOptions opts)),
               http_method = ''GET'', json = None\<rparr>
       \<in> set (RequestHandler_listErrors stringify send_request config opts userCb)"
proof -
  have "\<exists>logged. RequestHandler_listErrors stringify send_request config opts userCb
            = LoggerError logged
              # transported send_request
                  \<lparr>uri = manufactureAPIHref stringify None ''events''
                           (extend_object (getAPIKeyOptions config) (exportAsRequestOptions opts)),
                   http_method = ''GET'', json = None\<rparr>
                  ''list errors from project null'' (validated userCb)"
  proof (cases "getShouldReportErrorsToAPI config")
    case False
    then show ?thesis
      by (simp add: RequestHandler_listErrors_def requestPreflight_def
          endpoint_def API_ENDPOINTS_def Let_def)
  next
    case True
    with assms obtain err where "getProjectId config = Inl err"
      by (auto simp add: isl_def)
    with True show ?thesis
      by (simp add: RequestHandler_listErrors_def requestPreflight_def
          endpoint_def API_ENDPOINTS_def Let_def)
  qed
  then obtain logged where
    "RequestHandler_listErrors stringify send_request config opts userCb
            = LoggerError logged
              # transported send_request
                  \<lparr>uri = manufactureAPIHref stringify None ''events''
                           (extend_object (getAPIKeyOptions config) (exportAsRequestOptions opts)),
                   http_method = ''GET'', json = None\<rparr>
                  ''list errors from project null'' (validated userCb)" ..
  then show ?thesis by (simp add: transported_def)
qed

theorem listErrors_requests_after_preflight_error_witness:
  "\<not> getShouldReportErrorsToAPI
       \<lparr>getShouldReportErrorsToAPI = False, getProjectId = Inr ''my-project'', getKey = Null\<rparr>
   \<and> RequestHandler_listErrors (\<lambda>q. ''groupId=xyz&pageSize=10'') (\<lambda>r. (None, Null, Str ''{}''))
        \<lparr>getShouldReportErrorsToAPI = False, getProjectId = Inr ''my-project'', getKey = Null\<rparr>
        (setGroupId (Str ''xyz'') new_ListErrorOptions) (Fn 0)
     = [LoggerError (message ClientNotConfiguredToSendErrors),
        Request \<lparr>uri = ''https://clouderrorreporting.googleapis.com/v1beta1/projects//events?groupId=xyz&pageSize=10'',
                 http_method = ''GET'', json = None\<rparr>,
        Callback (Fn 0) Null Null (Str ''{}'')]"
  using listErrors_requests_after_preflight_error [of
      "\<lparr>getShouldReportErrorsToAPI = False, getProjectId = Inr ''my-project'', getKey = Null\<rparr>"
      "\<lambda>q. ''groupId=xyz&pageSize=10''" "\<lambda>r. (None, Null, Str ''{}'')"
      "setGroupId (Str ''xyz'') new_ListErrorOptions" "Fn 0"]
  by (simp add: RequestHandler_listErrors_def requestPreflight_def endpoint_def
      API_ENDPOINTS_def manufactureAPIHref_def API_def getAPIKeyOptions_def builder_defs
      invoke_def validated_def error_value_def transported_def)

lemma preflight_error_short_circuits:
  assumes "\<not> getShouldReportErrorsToAPI config \<or> isl (getProjectId config)"
  shows "\<forall>r. Request r \<notin> set (sendError stringify send_request config errorMessage userCb)"
    and "\<forall>r. Request r \<notin> set (deleteAllErrors stringify send_request config userCb)"
    and "isFunction userCb \<Longrightarrow>
           \<exists>e. last (sendError stringify send_request config errorMessage userCb)
                 = Callback userCb (ErrObj e) Null Null"
    and "isFunction userCb \<Longrightarrow>
           \<exists>e. last (deleteAllErrors stringify send_request config userCb)
                 = Callback userCb (ErrObj e) Null Null"
  using assms
  by (auto simp add: sendError_def deleteAllErrors_def requestPreflight_def invoke_def
      validated_def Let_def isl_def split: sum.splits)

section \<open>The configuration: proofs\<close>

lemma emitted_append: "emitted ev (t @ t') = emitted ev t @ emitted ev t'"
  by (induction ev t rule: emitted.induct) simp_all

lemma invoked_append: "invoked (t @ t') = invoked t @ invoked t'"
  by (induction t rule: invoked.induct) simp_all

lemma emitted_Invokes: "emitted ev (map (\<lambda>(ev', l). Invoke l arg) ls) = []"
  by (induction ls) (simp_all split: prod.splits)

lemma invoked_Invokes: "invoked (map (\<lambda>(ev', l). Invoke l arg) ls) = map (\<lambda>(ev', l). (l, arg)) ls"
  by (induction ls) (simp_all split: prod.splits)

lemma emit_result:
  "initState (snd (emit ev arg c)) = initState c"
  "initError (snd (emit ev arg c)) = initError c"
  "givenConfiguration (snd (emit ev arg c)) = givenConfiguration c"
  "projectId (snd (emit ev arg c)) = projectId c"
  "projectNumber (snd (emit ev arg c)) = projectNumber c"
  "emitted ev' (trace (snd (emit ev arg c))) =
     emitted ev' (trace c) @ (if ev = ev' then [arg] else [])"
  "invoked (trace (snd (emit ev arg c))) =
     invoked (trace c) @ map (\<lambda>(ev', l). (l, arg)) (filter (\<lambda>(ev', l). ev' = ev) (listeners c))"
  by (auto simp add: emit_def Let_def emitted_append emitted_Invokes invoked_append invoked_Invokes)

lemma checkConfigurationIntegrity_settled:
  "initState c \<Longrightarrow> checkConfigurationIntegrity c = (None, c)"
  by (simp add: checkConfigurationIntegrity_def)

text \<open>The first run of the integrity check settles the instance: a failure exactly when
  both identifiers are \<^verbatim>\<open>null\<close>, with the error emitted to the error listeners
  registered so far; otherwise \<^verbatim>\<open>ready\<close> is emitted with the instance to the ready
  listeners registered so far and \<open>initError\<close> is left as it was.\<close>

lemma checkConfigurationIntegrity_first:
  assumes "\<not> initState c"
  shows "initState (snd (checkConfigurationIntegrity c))"
    and "givenConfiguration (snd (checkConfigurationIntegrity c)) = givenConfiguration c"
    and "projectId (snd (checkConfigurationIntegrity c)) = projectId c"
    and "projectNumber (snd (checkConfigurationIntegrity c)) = projectNumber c"
    and "projectId c = Null \<and> projectNumber c = Null \<Longrightarrow>
           initError (snd (checkConfigurationIntegrity c))
             = Some (Error ''Unable to gather project id or number'')
           \<and> emitted ''error'' (trace (snd (checkConfigurationIntegrity c)))
             = emitted ''error'' (trace c) @ [Failure (Error ''Unable to gather project id or number'')]
           \<and> emitted ''ready'' (trace (snd (checkConfigurationIntegrity c)))
             = emitted ''ready'' (trace c)
           \<and> invoked (trace (snd (checkConfigurationIntegrity c)))
             = invoked (trace c)
               @ map (\<lambda>(ev, l). (l, Failure (Error ''Unable to gather project id or number'')))
                   (filter (\<lambda>(ev, l). ev = ''error'') (listeners c))"
    and "\<not> (projectId c = Null \<and> projectNumber c = Null) \<Longrightarrow>
           initError (snd (checkConfigurationIntegrity c)) = initError c
           \<and> emitted ''ready'' (trace (snd (checkConfigurationIntegrity c)))
             = emitted ''ready'' (trace c) @ [This]
           \<and> emitted ''error'' (trace (snd (checkConfigurationIntegrity c)))
             = emitted ''error'' (trace c)
           \<and> invoked (trace (snd (checkConfigurationIntegrity c)))
             = invoked (trace c)
               @ map (\<lambda>(ev, l). (l, This)) (filter (\<lambda>(ev, l). ev = ''ready'') (listeners c))"
  using assms
  by (simp_all add: checkConfigurationIntegrity_def Let_def isNull_def emit_result)

lemma checkConfigurationIntegrity_invariant:
  assumes "lifecycle_invariant c"
  shows "lifecycle_invariant (snd (checkConfigurationIntegrity c))"
proof (cases "initState c")
  case True
  then show ?thesis using assms by (simp add: checkConfigurationIntegrity_settled)
next
  case unsettled: False
  show ?thesis
  proof (cases "projectId c = Null \<and> projectNumber c = Null")
    case True
    then show ?thesis
      using checkConfigurationIntegrity_first(1) [OF unsettled]
        checkConfigurationIntegrity_first(5) [OF unsettled True] assms unsettled
      by (auto simp add: lifecycle_invariant_def split: option.splits)
  next
    case False
    then show ?thesis
      using checkConfigurationIntegrity_first(1) [OF unsettled]
        checkConfigurationIntegrity_first(6) [OF unsettled False] assms unsettled
      by (auto simp add: lifecycle_invariant_def split: option.splits)
  qed
qed

text \<open>A metadata callback whose gathering returns goes on to the integrity check; one
  whose gathering throws ends there.\<close>

lemma callback_after_gathering:
  "gather e (if isUndefined err \<and> isNumber num then c\<lparr>projectNumber := num\<rparr>
             else c\<lparr>trace := trace c @ [ConsoleError ''Unable to retrieve project number'' num err]\<rparr>)
     = (x, c1) \<Longrightarrow>
   assimilateProjectNumber gather e err num c =
     (case x of None \<Rightarrow> checkConfigurationIntegrity c1 | Some y \<Rightarrow> (Some y, c1))"
  "gather e (if isNull err \<and> isString ident then c\<lparr>projectId := ident\<rparr>
             else c\<lparr>trace := trace c @ [ConsoleError ''Unable to retrieve project id'' ident err]\<rparr>)
     = (x, c1) \<Longrightarrow>
   assimilateProjectId gather e err ident c =
     (case x of None \<Rightarrow> checkConfigurationIntegrity c1 | Some y \<Rightarrow> (Some y, c1))"
  by (simp_all add: assimilateProjectNumber_def assimilateProjectId_def split: option.splits)

text \<open>The life cycle for any gathering that leaves \<open>initState\<close>, \<open>initError\<close> and the
  emitted events alone.\<close>

lemma attempt_invariant:
  assumes frame: "\<And>e c. initState (snd (gather e c)) = initState c"
      "\<And>e c. initError (snd (gather e c)) = initError c"
      "\<And>e c ev. emitted ev (trace (snd (gather e c))) = emitted ev (trace c)"
    and cm: "initState cm = initState c" "initError cm = initError c"
      "\<And>ev. emitted ev (trace cm) = emitted ev (trace c)"
    and r: "r = (case gather e cm of (Some x, c1) \<Rightarrow> (Some x, c1)
                 | (None, c1) \<Rightarrow> checkConfigurationIntegrity c1)"
    and inv: "lifecycle_invariant c"
  shows "lifecycle_invariant (snd r)"
    and "initState c \<Longrightarrow> emitted ev (trace (snd r)) = emitted ev (trace c)
           \<and> fst r = fst (gather e cm)"
proof -
  obtain x c1 where g: "gather e cm = (x, c1)" by (cases "gather e cm")
  have s: "c1 = snd (gather e cm)" by (simp add: g)
  have c1: "initState c1 = initState c" "initError c1 = initError c"
    "\<And>ev. emitted ev (trace c1) = emitted ev (trace c)"
    by (simp_all add: s frame cm)
  have inv1: "lifecycle_invariant c1"
    using inv by (auto simp add: lifecycle_invariant_def c1 split: option.splits if_splits)
  show "lifecycle_invariant (snd r)"
  proof (cases x)
    case None
    then show ?thesis using checkConfigurationIntegrity_invariant [OF inv1] by (simp add: r g)
  next
    case (Some y)
    then show ?thesis using inv1 by (simp add: r g)
  qed
  show "emitted ev (trace (snd r)) = emitted ev (trace c) \<and> fst r = fst (gather e cm)"
    if "initState c"
  proof (cases x)
    case None
    then show ?thesis using that c1 by (simp add: r g checkConfigurationIntegrity_settled)
  next
    case (Some y)
    then show ?thesis using c1 by (simp add: r g)
  qed
qed

lemma callback_invariant:
  assumes frame: "\<And>e c. initState (snd (gather e c)) = initState c"
      "\<And>e c. initError (snd (gather e c)) = initError c"
      "\<And>e c ev. emitted ev (trace (snd (gather e c))) = emitted ev (trace c)"
    and inv: "lifecycle_invariant c"
  shows "lifecycle_invariant (snd (assimilateProjectNumber gather e err num c))"
    and "lifecycle_invariant (snd (assimilateProjectId gather e err ident c))"
proof -
  show "lifecycle_invariant (snd (assimilateProjectNumber gather e err num c))"
    by (rule attempt_invariant(1) [OF frame _ _ _ _ inv, where e = e and
          cm = "if isUndefined err \<and> isNumber num then c\<lparr>projectNumber := num\<rparr>
             else c\<lparr>trace := trace c @ [ConsoleError ''Unable to retrieve project number'' num err]\<rparr>"])
       (simp_all add: assimilateProjectNumber_def emitted_append)
  show "lifecycle_invariant (snd (assimilateProjectId gather e err ident c))"
    by (rule attempt_invariant(1) [OF frame _ _ _ _ inv, where e = e and
          cm = "if isNull err \<and> isString ident then c\<lparr>projectId := ident\<rparr>
             else c\<lparr>trace := trace c @ [ConsoleError ''Unable to retrieve project id'' ident err]\<rparr>"])
       (simp_all add: assimilateProjectId_def emitted_append)
qed

text \<open>After settlement a metadata callback emits nothing; it throws exactly when its
  gathering does.\<close>

lemma settled_callback:
  assumes frame: "\<And>e c. initState (snd (gather e c)) = initState c"
      "\<And>e c. initError (snd (gather e c)) = initError c"
      "\<And>e c ev. emitted ev (trace (snd (gather e c))) = emitted ev (trace c)"
    and inv: "lifecycle_invariant c" and settled: "initState c"
  shows "emitted ev (trace (snd (assimilateProjectNumber gather e err num c))) = emitted ev (trace c)"
    and "fst (assimilateProjectNumber gather e err num c)
          = fst (gather e (if isUndefined err \<and> isNumber num then c\<lparr>projectNumber := num\<rparr>
             else c\<lparr>trace := trace c @ [ConsoleError ''Unable to retrieve project number'' num err]\<rparr>))"
proof -
  have "emitted ev (trace (snd (assimilateProjectNumber gather e err num c))) = emitted ev (trace c)
     \<and> fst (assimilateProjectNumber gather e err num c)
          = fst (gather e (if isUndefined err \<and> isNumber num then c\<lparr>projectNumber := num\<rparr>
             else c\<lparr>trace := trace c @ [ConsoleError ''Unable to retrieve project number'' num err]\<rparr>))"
    by (rule attempt_invariant(2) [OF frame _ _ _ _ inv settled])
       (simp_all add: assimilateProjectNumber_def emitted_append)
  then show "emitted ev (trace (snd (assimilateProjectNumber gather e err num c))) = emitted ev (trace c)"
    and "fst (assimilateProjectNumber gather e err num c)
          = fst (gather e (if isUndefined err \<and> isNumber num then c\<lparr>projectNumber := num\<rparr>
             else c\<lparr>trace := trace c @ [ConsoleError ''Unable to retrieve project number'' num err]\<rparr>))"
    by simp_all
qed

lemma listener_invariant:
  assumes "lifecycle_invariant c"
  shows "lifecycle_invariant (snd (addReadyListener cb c))"
    and "lifecycle_invariant (snd (addErrorListener cb c))"
  using assms
  by (auto simp add: lifecycle_invariant_def addReadyListener_def addErrorListener_def
      once_def call_listener_def emitted_append split: option.splits)

lemma run_invariant:
  assumes frame: "\<And>e c. initState (snd (gather e c)) = initState c"
      "\<And>e c. initError (snd (gather e c)) = initError c"
      "\<And>e c ev. emitted ev (trace (snd (gather e c))) = emitted ev (trace c)"
  shows "lifecycle_invariant c \<Longrightarrow> lifecycle_invariant (run gather xs c)"
proof (induction xs arbitrary: c)
  case Nil
  then show ?case by simp
next
  case (Cons x xs)
  have "lifecycle_invariant (snd (step gather x c))"
    using Cons.prems
    by (cases x) (simp_all add: callback_invariant [OF frame] listener_invariant)
  then show ?case using Cons.IH by simp
qed

lemma new_Configuration_invariant:
  "lifecycle_invariant (new_Configuration e v given)"
  by (simp add: lifecycle_invariant_def new_Configuration_def)

text \<open>Over the whole life of an instance \<^verbatim>\<open>ready\<close> and \<^verbatim>\<open>error\<close> together are
  emitted at most once, whatever the listeners and the metadata callbacks.\<close>

lemma ready_error_at_most_once:
  assumes frame: "\<And>e c. initState (snd (gather e c)) = initState c"
      "\<And>e c. initError (snd (gather e c)) = initError c"
      "\<And>e c ev. emitted ev (trace (snd (gather e c))) = emitted ev (trace c)"
  shows "length (emitted ''ready'' (trace (run gather xs (new_Configuration e0 v given))))
       + length (emitted ''error'' (trace (run gather xs (new_Configuration e0 v given)))) \<le> 1"
proof -
  have "lifecycle_invariant (run gather xs (new_Configuration e0 v given))"
    by (rule run_invariant [OF frame new_Configuration_invariant])
  then show ?thesis
    by (auto simp add: lifecycle_invariant_def split: if_splits option.splits)
qed

subsection \<open>Local gathering with the syntax put right\<close>

lemma checkLocalProjectId_fields:
  "initState (checkLocalProjectId isNaN e c) = initState c"
  "initError (checkLocalProjectId isNaN e c) = initError c"
  "trace (checkLocalProjectId isNaN e c) = trace c"
  "listeners (checkLocalProjectId isNaN e c) = listeners c"
  "givenConfiguration (checkLocalProjectId isNaN e c) = givenConfiguration c"
  by (simp_all add: checkLocalProjectId_def)

lemma checkLocalProjectNumber_fields:
  "initState (checkLocalProjectNumber isNaN e c) = initState c"
  "initError (checkLocalProjectNumber isNaN e c) = initError c"
  "trace (checkLocalProjectNumber isNaN e c) = trace c"
  "listeners (checkLocalProjectNumber isNaN e c) = listeners c"
  "givenConfiguration (checkLocalProjectNumber isNaN e c) = givenConfiguration c"
  by (simp_all add: checkLocalProjectNumber_def)

lemma checkLocalServiceContext_fields:
  "initState (snd (checkLocalServiceContext_repaired e c)) = initState c"
  "initError (snd (checkLocalServiceContext_repaired e c)) = initError c"
  "trace (snd (checkLocalServiceContext_repaired e c)) = trace c"
  "listeners (snd (checkLocalServiceContext_repaired e c)) = listeners c"
  "givenConfiguration (snd (checkLocalServiceContext_repaired e c)) = givenConfiguration c"
  by (simp_all add: checkLocalServiceContext_repaired_def Let_def)

lemma checkLocalServiceContext_throws:
  "(fst (checkLocalServiceContext_repaired e c) = None)
     = (\<not> throws_on_service_context (givenConfiguration c))"
  by (auto simp add: checkLocalServiceContext_repaired_def Let_def throws_on_service_context_def)

lemma gather_fields:
  "initState (snd (gatherLocalConfiguration_repaired isNaN e c)) = initState c"
  "initError (snd (gatherLocalConfiguration_repaired isNaN e c)) = initError c"
  "trace (snd (gatherLocalConfiguration_repaired isNaN e c)) = trace c"
  "listeners (snd (gatherLocalConfiguration_repaired isNaN e c)) = listeners c"
  "givenConfiguration (snd (gatherLocalConfiguration_repaired isNaN e c)) = givenConfiguration c"
proof -
  obtain x c1 where sc: "checkLocalServiceContext_repaired e
             (checkLocalProjectNumber isNaN e (checkLocalProjectId isNaN e c)) = (x, c1)"
    by (cases "checkLocalServiceContext_repaired e
             (checkLocalProjectNumber isNaN e (checkLocalProjectId isNaN e c))")
  have f: "initState c1 = initState c" "initError c1 = initError c" "trace c1 = trace c"
     "listeners c1 = listeners c" "givenConfiguration c1 = givenConfiguration c"
    using checkLocalServiceContext_fields
      [of e "checkLocalProjectNumber isNaN e (checkLocalProjectId isNaN e c)"]
    by (simp_all add: sc checkLocalProjectNumber_fields checkLocalProjectId_fields)
  show "initState (snd (gatherLocalConfiguration_repaired isNaN e c)) = initState c"
    "initError (snd (gatherLocalConfiguration_repaired isNaN e c)) = initError c"
    "trace (snd (gatherLocalConfiguration_repaired isNaN e c)) = trace c"
    "listeners (snd (gatherLocalConfiguration_repaired isNaN e c)) = listeners c"
    "givenConfiguration (snd (gatherLocalConfiguration_repaired isNaN e c)) = givenConfiguration c"
    using f
    by (simp_all add: gatherLocalConfiguration_repaired_def sc Let_def
        split: option.splits jsval.splits)
qed

lemma gather_throws:
  "(fst (gatherLocalConfiguration_repaired isNaN e c) = None)
     = (\<not> throws_on_service_context (givenConfiguration c))"
proof -
  obtain x c1 where sc: "checkLocalServiceContext_repaired e
             (checkLocalProjectNumber isNaN e (checkLocalProjectId isNaN e c)) = (x, c1)"
    by (cases "checkLocalServiceContext_repaired e
             (checkLocalProjectNumber isNaN e (checkLocalProjectId isNaN e c))")
  have "(x = None) = (\<not> throws_on_service_context (givenConfiguration c))"
    using checkLocalServiceContext_throws
      [of e "checkLocalProjectNumber isNaN e (checkLocalProjectId isNaN e c)"]
    by (simp add: sc checkLocalProjectNumber_fields checkLocalProjectId_fields)
  then show ?thesis
    by (cases x) (simp_all add: gatherLocalConfiguration_repaired_def sc Let_def)
qed

text \<open>With the syntax put right the events are still emitted at most once.\<close>

lemma ready_error_at_most_once_repaired:
  "length (emitted ''ready''
            (trace (run (gatherLocalConfiguration_repaired isNaN) xs (new_Configuration e0 v given))))
   + length (emitted ''error''
            (trace (run (gatherLocalConfiguration_repaired isNaN) xs (new_Configuration e0 v given))))
   \<le> 1"
  by (rule ready_error_at_most_once) (simp_all add: gather_fields)

text \<open>But with a service context in the given configuration (a string \<^verbatim>\<open>service\<close> or
  \<^verbatim>\<open>version\<close>), every metadata callback throws in gathering, the first and all later
  ones: the integrity check is never reached and the instance does not settle.\<close>

lemma every_callback_throws:
  assumes "throws_on_service_context (givenConfiguration c)"
  shows "fst (assimilateProjectNumber (gatherLocalConfiguration_repaired isNaN) e err num c) \<noteq> None"
    and "initState (snd (assimilateProjectNumber (gatherLocalConfiguration_repaired isNaN) e err num c))
           = initState c"
    and "givenConfiguration
           (snd (assimilateProjectNumber (gatherLocalConfiguration_repaired isNaN) e err num c))
           = givenConfiguration c"
    and "emitted ev (trace (snd (assimilateProjectNumber (gatherLocalConfiguration_repaired isNaN)
                                   e err num c)))
           = emitted ev (trace c)"
proof -
  define c0 where "c0 = (if isUndefined err \<and> isNumber num then c\<lparr>projectNumber := num\<rparr>
      else c\<lparr>trace := trace c @ [ConsoleError ''Unable to retrieve project number'' num err]\<rparr>)"
  have c0: "initState c0 = initState c" "givenConfiguration c0 = givenConfiguration c"
      "emitted ev (trace c0) = emitted ev (trace c)"
    by (simp_all add: c0_def emitted_append)
  obtain x c1 where g: "gatherLocalConfiguration_repaired isNaN e c0 = (x, c1)"
    by (cases "gatherLocalConfiguration_repaired isNaN e c0")
  have x: "x \<noteq> None"
    using gather_throws [of isNaN e c0] assms by (simp add: g c0)
  then obtain y where y: "x = Some y" by auto
  have r: "assimilateProjectNumber (gatherLocalConfiguration_repaired isNaN) e err num c = (Some y, c1)"
    using callback_after_gathering(1) [of "gatherLocalConfiguration_repaired isNaN" e err num c x c1] g
    by (simp add: c0_def y)
  have c1: "initState c1 = initState c" "givenConfiguration c1 = givenConfiguration c"
    "trace c1 = trace c0"
    using gather_fields(1,5,3) [of isNaN e c0] by (simp_all add: g c0)
  show "fst (assimilateProjectNumber (gatherLocalConfiguration_repaired isNaN) e err num c) \<noteq> None"
    by (simp add: r)
  show "initState (snd (assimilateProjectNumber (gatherLocalConfiguration_repaired isNaN) e err num c))
           = initState c"
    by (simp add: r c1)
  show "givenConfiguration
           (snd (assimilateProjectNumber (gatherLocalConfiguration_repaired isNaN) e err num c))
           = givenConfiguration c"
    by (simp add: r c1)
  show "emitted ev (trace (snd (assimilateProjectNumber (gatherLocalConfiguration_repaired isNaN)
                                   e err num c)))
           = emitted ev (trace c)"
    by (simp add: r c1 c0)
qed

lemmas configuration_defs =
  new_Configuration_def checkConfigurationIntegrity_def emit_def once_def
  addReadyListener_def addErrorListener_def call_listener_def
  isNull_def Let_def




text \<open>
  Claim C5. A listener (a function) added after settlement: \<open>addReadyListener\<close> calls it
  at once with the instance after a successful settlement and does nothing after a
  failed one; \<open>addErrorListener\<close> calls it at once with the settlement error after a
  failed settlement and does nothing after a successful one.
\<close>

theorem late_listener_gets_cached_outcome:
  assumes "initState c" and "isFunction cb"
  shows "(initError c = None \<longrightarrow>
            addReadyListener cb c = (None, c\<lparr>trace := trace c @ [Invoke cb This]\<rparr>)
            \<and> addErrorListener cb c = (None, c))
       \<and> (\<forall>e. initError c = Some e \<longrightarrow>
            addErrorListener cb c = (None, c\<lparr>trace := trace c @ [Invoke cb (Failure e)]\<rparr>)
            \<and> addReadyListener cb c = (None, c))"
  using assms by (simp add: addReadyListener_def addErrorListener_def call_listener_def)

theorem late_listener_gets_cached_outcome_witness:
  "initState (snd (checkConfigurationIntegrity
        ((new_Configuration env0 ''0.1.0'' (Obj []))\<lparr>projectNumber := Num 42\<rparr>)))
   \<and> isFunction (Fn 7)
   \<and> invoked (trace (snd (addReadyListener (Fn 7)
        (snd (checkConfigurationIntegrity
           ((new_Configuration env0 ''0.1.0'' (Obj []))\<lparr>projectNumber := Num 42\<rparr>)))))) = [(Fn 7, This)]
   \<and> invoked (trace (snd (addErrorListener (Fn 7)
        (snd (checkConfigurationIntegrity
           ((new_Configuration env0 ''0.1.0'' (Obj []))\<lparr>projectNumber := Num 42\<rparr>)))))) = []"
  using late_listener_gets_cached_outcome [of
      "snd (checkConfigurationIntegrity
           ((new_Configuration env0 ''0.1.0'' (Obj []))\<lparr>projectNumber := Num 42\<rparr>))" "Fn 7"]
  by (simp add: configuration_defs env0_def)

end
